theory Spec2Isabelle
  imports Main "HOL-Library.Sublist" "HOL-Library.AList"
begin

section \<open>Python values and string primitives used by the retrieval code\<close>

text \<open>
  The exceptions the modelled code can raise or receive.  \<open>BackendError\<close> stands for
  any exception raised inside the vector store client or the language-model client; its
  argument is the message.
\<close>

datatype error =
    TypeError
  | ValueError
  | IndexError
  | KeyError
  | AttributeError
  | BackendError string

definition ebind :: "error + 'a \<Rightarrow> ('a \<Rightarrow> error + 'b) \<Rightarrow> error + 'b" where
  "ebind m f = (case m of Inl e \<Rightarrow> Inl e | Inr v \<Rightarrow> f v)"

text \<open>\<open>xs[i]\<close> for a non-negative index: out of range raises \<open>IndexError\<close>.\<close>

definition py_index :: "'a list \<Rightarrow> nat \<Rightarrow> error + 'a" where
  "py_index xs i = (if i < length xs then Inr (xs ! i) else Inl IndexError)"

text \<open>\<open>xs[:n]\<close>: a negative bound counts from the end of the list.\<close>

definition py_take :: "int \<Rightarrow> 'a list \<Rightarrow> 'a list" where
  "py_take n xs = (if 0 \<le> n then take (nat n) xs else take (length xs - nat (- n)) xs)"

text \<open>
  A string is a list of characters, a character standing for a code point below 256.
  \<open>str.lower\<close> maps the capital letters to the small ones: \<open>A\<close> to \<open>Z\<close>, and the
  accented capitals \<open>0xC0\<close> to \<open>0xDE\<close> without the multiplication sign \<open>0xD7\<close>.
\<close>

definition lower_char :: "char \<Rightarrow> char" where
  "lower_char c =
     (let k = (of_char c :: nat)
      in if (65 \<le> k \<and> k \<le> 90) \<or> (192 \<le> k \<and> k \<le> 222 \<and> k \<noteq> 215)
         then char_of (k + 32) else c)"

definition py_lower :: "string \<Rightarrow> string" where
  "py_lower s = map lower_char s"

text \<open>
  \<open>str.strip()\<close> removes leading and trailing white space: tab, line feed, vertical
  tab, form feed, carriage return, the separators \<open>0x1C\<close> to \<open>0x1F\<close>, the blank,
  next line \<open>0x85\<close> and the no-break space \<open>0xA0\<close>.
\<close>

definition is_space :: "char \<Rightarrow> bool" where
  "is_space c =
     (let k = (of_char c :: nat)
      in (9 \<le> k \<and> k \<le> 13) \<or> (28 \<le> k \<and> k \<le> 32) \<or> k = 133 \<or> k = 160)"

definition py_strip :: "string \<Rightarrow> string" where
  "py_strip s = rev (dropWhile is_space (rev (dropWhile is_space s)))"

text \<open>\<open>a in b\<close> on two strings: \<open>a\<close> occurs in \<open>b\<close> as a contiguous piece.\<close>

definition str_in :: "string \<Rightarrow> string \<Rightarrow> bool" where
  "str_in a b = sublist a b"

text \<open>
  \<open>s.split(sep)\<close> for a non-empty separator: scan from the left, cut at each
  occurrence, continue after it.  \<open>cur\<close> holds the piece being read, reversed.
  (Python raises \<open>ValueError\<close> on an empty separator; every call in the modelled code
  passes a non-empty constant, and for an empty one the model returns the whole string.)
\<close>

fun split_from :: "string \<Rightarrow> string \<Rightarrow> string \<Rightarrow> string list" where
  "split_from sep cur [] = [rev cur]"
| "split_from sep cur (c # cs) =
     (if sep \<noteq> [] \<and> prefix sep (c # cs)
      then rev cur # split_from sep [] (drop (length sep - 1) cs)
      else split_from sep (c # cur) cs)"

definition py_split :: "string \<Rightarrow> string \<Rightarrow> string list" where
  "py_split sep s = split_from sep [] s"

text \<open>\<open>sep.join(parts)\<close> on a list of strings.\<close>

fun py_join :: "string \<Rightarrow> string list \<Rightarrow> string" where
  "py_join sep [] = []"
| "py_join sep [x] = x"
| "py_join sep (x # y # ys) = x @ sep @ py_join sep (y # ys)"

text \<open>
  \<open>int(s)\<close> on a string.  The white space dropped at both ends is tab, line feed,
  vertical tab, form feed, carriage return, the blank, \<open>0x85\<close> and \<open>0xA0\<close>; the
  separators \<open>0x1C\<close> to \<open>0x1F\<close>, which \<open>str.strip()\<close> removes, are not among it.
  Then one sign is allowed, then decimal digits, where single underscores may separate
  digit groups.  A literal of more than 4300 digits is refused.  Anything else raises
  \<open>ValueError\<close> as well.
\<close>

definition int_space :: "char \<Rightarrow> bool" where
  "int_space c =
     (let k = (of_char c :: nat) in (9 \<le> k \<and> k \<le> 13) \<or> k = 32 \<or> k = 133 \<or> k = 160)"

definition int_strip :: "string \<Rightarrow> string" where
  "int_strip s = rev (dropWhile int_space (rev (dropWhile int_space s)))"

definition max_str_digits :: nat where
  "max_str_digits = 4300"

definition is_digit :: "char \<Rightarrow> bool" where
  "is_digit c = (let k = (of_char c :: nat) in 48 \<le> k \<and> k \<le> 57)"

definition digit_val :: "char \<Rightarrow> nat" where
  "digit_val c = of_char c - 48"

definition digits_val :: "string \<Rightarrow> nat" where
  "digits_val s = foldl (\<lambda>acc c. 10 * acc + digit_val c) 0 s"

definition py_nat_literal :: "string \<Rightarrow> error + nat" where
  "py_nat_literal s =
     (let groups = py_split ''_'' s
      in if list_all (\<lambda>g. g \<noteq> [] \<and> list_all is_digit g) groups
            \<and> length (concat groups) \<le> max_str_digits
         then Inr (digits_val (concat groups))
         else Inl ValueError)"

definition py_int :: "string \<Rightarrow> error + int" where
  "py_int s =
     (case int_strip s of
        [] \<Rightarrow> Inl ValueError
      | c # cs \<Rightarrow>
          if c = CHR ''-'' then ebind (py_nat_literal cs) (\<lambda>k. Inr (- int k))
          else if c = CHR ''+'' then ebind (py_nat_literal cs) (\<lambda>k. Inr (int k))
          else ebind (py_nat_literal (c # cs)) (\<lambda>k. Inr (int k)))"

text \<open>
  \<open>str(n)\<close> on an integer: its decimal digits, with a minus sign when negative.  An
  integer of more than 4300 digits raises \<open>ValueError\<close>.
\<close>

fun nat_digits :: "nat \<Rightarrow> string" where
  "nat_digits k = (if k < 10 then [char_of (48 + k)] else nat_digits (k div 10) @ [char_of (48 + k mod 10)])"

declare nat_digits.simps [simp del]

definition py_str_int :: "int \<Rightarrow> error + string" where
  "py_str_int i =
     (let ds = nat_digits (nat \<bar>i\<bar>)
      in if length ds > max_str_digits then Inl ValueError
         else Inr (if i < 0 then CHR ''-'' # ds else ds))"


section \<open>JSON values: the parsed answer of the language model\<close>

text \<open>
  \<open>json.loads\<close> yields \<open>None\<close>, booleans, numbers, strings, lists and dictionaries.
  Numbers are modelled as integers (the prompt asks for years).  An object is an
  association list that holds each key once, in insertion order.
\<close>

datatype json =
    JNull
  | JBool bool
  | JNum int
  | JStr string
  | JArr "json list"
  | JObj "(string \<times> json) list"

text \<open>Python truth value of a parsed value.\<close>

fun truthy :: "json \<Rightarrow> bool" where
  "truthy JNull = False"
| "truthy (JBool b) = b"
| "truthy (JNum k) = (k \<noteq> 0)"
| "truthy (JStr s) = (s \<noteq> [])"
| "truthy (JArr xs) = (xs \<noteq> [])"
| "truthy (JObj kvs) = (kvs \<noteq> [])"

text \<open>\<open>d.get(key, default)\<close>: only a dictionary has the method.\<close>

fun dict_get_default :: "json \<Rightarrow> string \<Rightarrow> json \<Rightarrow> error + json" where
  "dict_get_default (JObj kvs) key dflt =
     Inr (case map_of kvs key of Some v \<Rightarrow> v | None \<Rightarrow> dflt)"
| "dict_get_default _ key dflt = Inl AttributeError"

text \<open>\<open>key in v\<close> for a string key: key lookup, list membership or substring test.\<close>

fun py_contains :: "string \<Rightarrow> json \<Rightarrow> error + bool" where
  "py_contains key (JObj kvs) = Inr (key \<in> set (map fst kvs))"
| "py_contains key (JArr xs) = Inr (JStr key \<in> set xs)"
| "py_contains key (JStr s) = Inr (str_in key s)"
| "py_contains key _ = Inl TypeError"

text \<open>\<open>v[key]\<close> for a string key.\<close>

fun py_subscript_key :: "json \<Rightarrow> string \<Rightarrow> error + json" where
  "py_subscript_key (JObj kvs) key =
     (case map_of kvs key of Some v \<Rightarrow> Inr v | None \<Rightarrow> Inl KeyError)"
| "py_subscript_key _ key = Inl TypeError"

text \<open>
  \<open>v[i]\<close> for a non-negative integer: an element of a list, a one-character string
  of a string; an object parsed from JSON has string keys only, so the lookup fails.
\<close>

fun py_subscript_idx :: "json \<Rightarrow> nat \<Rightarrow> error + json" where
  "py_subscript_idx (JArr xs) i = py_index xs i"
| "py_subscript_idx (JStr s) i = (if i < length s then Inr (JStr [s ! i]) else Inl IndexError)"
| "py_subscript_idx (JObj kvs) i = Inl KeyError"
| "py_subscript_idx _ i = Inl TypeError"

fun py_len :: "json \<Rightarrow> error + nat" where
  "py_len (JArr xs) = Inr (length xs)"
| "py_len (JStr s) = Inr (length s)"
| "py_len (JObj kvs) = Inr (length kvs)"
| "py_len _ = Inl TypeError"

text \<open>
  \<open>sep.join(v)\<close>: \<open>v\<close> is iterated (a list by element, a string by character, a
  dictionary by key) and every item has to be a string.
\<close>

fun the_strings :: "json list \<Rightarrow> error + string list" where
  "the_strings [] = Inr []"
| "the_strings (JStr s # xs) = ebind (the_strings xs) (\<lambda>ss. Inr (s # ss))"
| "the_strings (_ # xs) = Inl TypeError"

fun join_field :: "string \<Rightarrow> json \<Rightarrow> error + string" where
  "join_field sep (JArr xs) = ebind (the_strings xs) (\<lambda>ss. Inr (py_join sep ss))"
| "join_field sep (JStr s) = Inr (py_join sep (map (\<lambda>c. [c]) s))"
| "join_field sep (JObj kvs) = Inr (py_join sep (map fst kvs))"
| "join_field sep _ = Inl TypeError"

text \<open>
  \<open>str(v)\<close>.  The text Python prints for a list or a dictionary is left to the
  parameter \<open>repr\<close>.
\<close>

fun py_str :: "(json \<Rightarrow> string) \<Rightarrow> json \<Rightarrow> error + string" where
  "py_str repr JNull = Inr ''None''"
| "py_str repr (JBool b) = Inr (if b then ''True'' else ''False'')"
| "py_str repr (JNum k) = py_str_int k"
| "py_str repr (JStr s) = Inr s"
| "py_str repr v = Inr (repr v)"

section \<open>Filter compilation: \<open>MovieRAGSystem._construct_vector_query\<close>\<close>

text \<open>
  The compiled filter set is a dictionary from a metadata field to a dictionary from an
  operator (\<open>$contains\<close>, \<open>$gte\<close>, \<open>$lte\<close>) to a string.
\<close>

type_synonym filters = "(string \<times> (string \<times> string) list) list"

record vector_query =
  query_text :: json
  filters :: "filters option"

text \<open>
  The block shared by genres, directors and actors:
  \<^verbatim>\<open>if key in intent_filters and intent_filters[key]:
      filters[target] = {"$contains": "|".join(intent_filters[key])}\<close>
\<close>

definition add_contains :: "json \<Rightarrow> string \<Rightarrow> string \<Rightarrow> filters \<Rightarrow> error + filters" where
  "add_contains intent_filters key target fs =
     ebind (py_contains key intent_filters) (\<lambda>present.
       if \<not> present then Inr fs
       else ebind (py_subscript_key intent_filters key) (\<lambda>v.
         if \<not> truthy v then Inr fs
         else ebind (join_field ''|'' v) (\<lambda>joined.
           Inr (AList.update target [(''$contains'', joined)] fs))))"

text \<open>The test \<open>len(year_range) == 2 and year_range[0] and year_range[1]\<close>.\<close>

definition both_bounds :: "json \<Rightarrow> error + bool" where
  "both_bounds year_range =
     ebind (py_len year_range) (\<lambda>k.
       if k \<noteq> 2 then Inr False
       else ebind (py_subscript_idx year_range 0) (\<lambda>a.
         if \<not> truthy a then Inr False
         else ebind (py_subscript_idx year_range 1) (\<lambda>b. Inr (truthy b))))"

definition add_year :: "(json \<Rightarrow> string) \<Rightarrow> json \<Rightarrow> filters \<Rightarrow> error + filters" where
  "add_year repr intent_filters fs =
     ebind (py_contains ''year_range'' intent_filters) (\<lambda>present.
       if \<not> present then Inr fs
       else ebind (py_subscript_key intent_filters ''year_range'') (\<lambda>year_range.
         if \<not> truthy year_range then Inr fs
         else ebind (both_bounds year_range) (\<lambda>both.
           if both then
             ebind (py_subscript_idx year_range 0) (\<lambda>a.
             ebind (py_str repr a) (\<lambda>lower.
             ebind (py_subscript_idx year_range 1) (\<lambda>b.
             ebind (py_str repr b) (\<lambda>upper.
               Inr (AList.update ''year'' [(''$gte'', lower), (''$lte'', upper)] fs)))))
           else
             ebind (py_subscript_idx year_range 0) (\<lambda>a.
               if truthy a then
                 ebind (py_str repr a) (\<lambda>lower.
                   Inr (AList.update ''year'' [(''$gte'', lower)] fs))
               else
                 ebind (py_subscript_idx year_range 1) (\<lambda>b.
                   if truthy b then
                     ebind (py_str repr b) (\<lambda>upper.
                       Inr (AList.update ''year'' [(''$lte'', upper)] fs))
                   else Inr fs)))))"

definition construct_vector_query :: "(json \<Rightarrow> string) \<Rightarrow> json \<Rightarrow> error + vector_query" where
  "construct_vector_query repr intent_data =
     ebind (dict_get_default intent_data ''search_query'' (JStr [])) (\<lambda>search_query.
     ebind (dict_get_default intent_data ''filters'' (JObj [])) (\<lambda>intent_filters.
     ebind (add_contains intent_filters ''genres'' ''genres'' []) (\<lambda>f1.
     ebind (add_year repr intent_filters f1) (\<lambda>f2.
     ebind (add_contains intent_filters ''directors'' ''directors'' f2) (\<lambda>f3.
     ebind (add_contains intent_filters ''actors'' ''cast'' f3) (\<lambda>f4.
       Inr \<lparr>query_text = search_query,
            filters = (if f4 \<noteq> [] then Some f4 else None)\<rparr>))))))"


section \<open>The vector store and \<open>MovieVectorDB\<close>\<close>

text \<open>
  A metadata value of the store is a string, an integer or a boolean; a metadata record
  is a dictionary of them.
\<close>

datatype mval = MStr string | MInt int | MBool bool

type_synonym meta = "(string \<times> mval) list"

fun mtruthy :: "mval \<Rightarrow> bool" where
  "mtruthy (MStr s) = (s \<noteq> [])"
| "mtruthy (MInt k) = (k \<noteq> 0)"
| "mtruthy (MBool b) = b"

text \<open>\<open>bool(meta.get(key))\<close>: a missing key gives \<open>None\<close>, which is false.\<close>

definition meta_truthy :: "meta \<Rightarrow> string \<Rightarrow> bool" where
  "meta_truthy m key = (case map_of m key of Some v \<Rightarrow> mtruthy v | None \<Rightarrow> False)"

text \<open>
  The answer of \<open>collection.query\<close>: four parallel fields, each a list with one inner
  list per query text.  The type of the distances is left open.
\<close>

record 'd query_result =
  ids :: "string list list"
  documents :: "string list list"
  metadatas :: "meta list list"
  distances :: "'d list list"

text \<open>The answer of \<open>collection.get\<close>, of which the code reads two fields.\<close>

record get_result =
  sample_ids :: "string list"
  sample_metadatas :: "meta list"

text \<open>
  The collection is external: its three operations are parameters, each giving either
  the exception it raises or its answer.  Every operation of \<open>MovieVectorDB\<close> returns,
  beside its value, the requests it sent to the collection, in order.
\<close>

datatype request =
    CountReq
  | GetReq int
  | QueryReq json int "filters option"

record 'd collection =
  on_count :: "error + nat"
  on_get :: "int \<Rightarrow> error + get_result"
  on_query :: "json \<Rightarrow> int \<Rightarrow> filters option \<Rightarrow> error + 'd query_result"

text \<open>The two literals returned after an exception.\<close>

definition flat_empty :: "'d query_result" where
  "flat_empty = \<lparr>ids = [], documents = [], metadatas = [], distances = []\<rparr>"

definition nested_empty :: "'d query_result" where
  "nested_empty = \<lparr>ids = [[]], documents = [[]], metadatas = [[]], distances = [[]]\<rparr>"

subsection \<open>\<open>query_similar\<close>\<close>

definition query_similar ::
  "'d collection \<Rightarrow> json \<Rightarrow> int \<Rightarrow> filters option \<Rightarrow> 'd query_result \<times> request list" where
  "query_similar coll qtext n_results filter_criteria =
     ((case on_query coll qtext n_results filter_criteria of
         Inl e \<Rightarrow> flat_empty
       | Inr results \<Rightarrow> results),
      [QueryReq qtext n_results filter_criteria])"

subsection \<open>\<open>hybrid_search\<close>: the check of one candidate\<close>

definition sci_fi_terms :: "string list" where
  "sci_fi_terms = [''sci-fi'', ''science fiction'', ''scifi'', ''sci fi'']"

text \<open>
  \<^verbatim>\<open>if "sci-fi" in filter_genres:
      (some term of sci_fi_terms is in genres_lower)
  else:
      any(genre.strip().lower() in genres_lower for genre in filter_genres.split("|"))\<close>
\<close>

definition genre_match :: "string \<Rightarrow> string \<Rightarrow> bool" where
  "genre_match filter_genres genres_lower =
     (if str_in ''sci-fi'' filter_genres
      then list_ex (\<lambda>t. str_in t genres_lower) sci_fi_terms
      else list_ex (\<lambda>genre. str_in (py_lower (py_strip genre)) genres_lower)
             (py_split ''|'' filter_genres))"

text \<open>\<open>bool(metadata_filters.get(field))\<close>: the field has a non-empty operator dictionary.\<close>

definition filter_on :: "filters \<Rightarrow> string \<Rightarrow> bool" where
  "filter_on mf field = (case map_of mf field of Some ops \<Rightarrow> ops \<noteq> [] | None \<Rightarrow> False)"

text \<open>\<open>metadata_filters[field].get(op, dflt)\<close>, used where the field is known to be there.\<close>

definition filter_op :: "filters \<Rightarrow> string \<Rightarrow> string \<Rightarrow> string \<Rightarrow> string" where
  "filter_op mf field opr dflt =
     (case map_of mf field of
        Some ops \<Rightarrow> (case map_of ops opr of Some v \<Rightarrow> v | None \<Rightarrow> dflt)
      | None \<Rightarrow> dflt)"

text \<open>\<open>meta[key].lower()\<close>: only a string has the method.\<close>

definition meta_lower :: "meta \<Rightarrow> string \<Rightarrow> error + string" where
  "meta_lower m key =
     (case map_of m key of
        Some (MStr s) \<Rightarrow> Inr (py_lower s)
      | Some _ \<Rightarrow> Inl AttributeError
      | None \<Rightarrow> Inl KeyError)"

text \<open>The genre block of the loop body; \<open>incl\<close> is the variable \<open>include\<close>.\<close>

definition genre_check :: "filters \<Rightarrow> meta \<Rightarrow> bool \<Rightarrow> error + bool" where
  "genre_check mf m incl =
     (if filter_on mf ''genres'' \<and> meta_truthy m ''genres'' then
        ebind (meta_lower m ''genres'') (\<lambda>genres_lower.
          let filter_genres = py_lower (filter_op mf ''genres'' ''$contains'' [])
          in Inr (if \<not> genre_match filter_genres genres_lower then False else incl))
      else Inr incl)"

text \<open>
  \<^verbatim>\<open>if "-" in meta["year"]: item_year = int(meta["year"].split("-")[0])
  else: item_year = int(meta["year"])\<close>
  The test \<open>"-" in\<close> raises \<open>TypeError\<close> on a value that is not a string.
\<close>

fun item_year :: "mval \<Rightarrow> error + int" where
  "item_year (MStr s) =
     (if str_in ''-'' s then ebind (py_index (py_split ''-'' s) 0) py_int else py_int s)"
| "item_year _ = Inl TypeError"

text \<open>
  One bound: \<open>if year_filter.get(op) and <comparison with int(year_filter[op])>: include = False\<close>.
  \<open>out_of_range\<close> is the comparison, given the bound.
\<close>

definition bound_step :: "filters \<Rightarrow> string \<Rightarrow> (int \<Rightarrow> bool) \<Rightarrow> bool \<Rightarrow> error + bool" where
  "bound_step mf opr out_of_range incl =
     (let b = filter_op mf ''year'' opr []
      in if b = [] then Inr incl
         else ebind (py_int b) (\<lambda>k. Inr (if out_of_range k then False else incl)))"

text \<open>\<open>except (ValueError, TypeError): pass\<close> keeps the value \<open>include\<close> has at that moment.\<close>

definition year_handler :: "error \<Rightarrow> bool \<Rightarrow> error + bool" where
  "year_handler e incl = (if e = ValueError \<or> e = TypeError then Inr incl else Inl e)"

definition year_check :: "filters \<Rightarrow> meta \<Rightarrow> bool \<Rightarrow> error + bool" where
  "year_check mf m incl =
     (if filter_on mf ''year'' \<and> meta_truthy m ''year'' then
        (case item_year (the (map_of m ''year'')) of
           Inl e \<Rightarrow> year_handler e incl
         | Inr y \<Rightarrow>
             (case bound_step mf ''$gte'' (\<lambda>lo. y < lo) incl of
                Inl e \<Rightarrow> year_handler e incl
              | Inr incl1 \<Rightarrow>
                  (case bound_step mf ''$lte'' (\<lambda>hi. y > hi) incl1 of
                     Inl e \<Rightarrow> year_handler e incl1
                   | Inr incl2 \<Rightarrow> Inr incl2)))
      else Inr incl)"

text \<open>The loop body: \<open>include = True\<close>, the genre block, the year block.\<close>

definition include_meta :: "filters \<Rightarrow> meta \<Rightarrow> error + bool" where
  "include_meta mf m = ebind (genre_check mf m True) (\<lambda>incl. year_check mf m incl)"

text \<open>The loop over \<open>enumerate(results["metadatas"][0])\<close>, building \<open>filtered_indices\<close>.\<close>

fun filtered_from :: "filters \<Rightarrow> nat \<Rightarrow> meta list \<Rightarrow> error + nat list" where
  "filtered_from mf i [] = Inr []"
| "filtered_from mf i (m # ms) =
     ebind (include_meta mf m) (\<lambda>incl.
       ebind (filtered_from mf (Suc i) ms) (\<lambda>rest.
         Inr (if incl then i # rest else rest)))"

text \<open>A list comprehension whose body may raise.\<close>

fun each :: "('a \<Rightarrow> error + 'b) \<Rightarrow> 'a list \<Rightarrow> error + 'b list" where
  "each f [] = Inr []"
| "each f (x # xs) = ebind (f x) (\<lambda>y. ebind (each f xs) (\<lambda>ys. Inr (y # ys)))"

text \<open>\<open>[results[field][0][i] for i in filtered_indices]\<close>\<close>

definition gather :: "'a list list \<Rightarrow> nat list \<Rightarrow> error + 'a list" where
  "gather field idxs = each (\<lambda>i. ebind (py_index field 0) (\<lambda>row. py_index row i)) idxs"

subsection \<open>\<open>hybrid_search\<close>: the body after the query returned\<close>

definition apply_filters :: "filters \<Rightarrow> int \<Rightarrow> 'd query_result \<Rightarrow> error + 'd query_result" where
  "apply_filters mf n_results results =
     ebind (py_index (metadatas results) 0) (\<lambda>metas.
     ebind (filtered_from mf 0 metas) (\<lambda>filtered_indices.
       if filtered_indices \<noteq> [] then
         ebind (gather (ids results) filtered_indices) (\<lambda>filtered_ids.
         ebind (gather (documents results) filtered_indices) (\<lambda>filtered_docs.
         ebind (gather (metadatas results) filtered_indices) (\<lambda>filtered_meta.
         ebind (gather (distances results) filtered_indices) (\<lambda>filtered_dist.
           Inr \<lparr>ids = [py_take n_results filtered_ids],
                documents = [py_take n_results filtered_docs],
                metadatas = [py_take n_results filtered_meta],
                distances = [py_take n_results filtered_dist]\<rparr>))))
       else Inr nested_empty))"

text \<open>
  After the query: the log line reads \<open>results['ids'][0]\<close>; with filters and candidates
  the filter pass runs; otherwise the first results are logged, which reads
  \<open>results["metadatas"][0]\<close>, and the answer of the store is returned as it is.
\<close>

definition after_query ::
  "filters option \<Rightarrow> int \<Rightarrow> 'd query_result \<Rightarrow> error + 'd query_result" where
  "after_query metadata_filters n_results results =
     ebind (py_index (ids results) 0) (\<lambda>ids0.
       if (case metadata_filters of Some mf \<Rightarrow> mf \<noteq> [] | None \<Rightarrow> False) \<and> ids0 \<noteq> [] then
         apply_filters (the metadata_filters) n_results results
       else if ids0 \<noteq> [] then
         ebind (py_index (metadatas results) 0) (\<lambda>metas. Inr results)
       else Inr results)"

text \<open>The log of a sample: \<open>if sample["ids"]: ... sample['metadatas'][0]\<close>.\<close>

definition log_sample :: "get_result \<Rightarrow> error + unit" where
  "log_sample sample =
     (if sample_ids sample \<noteq> [] then ebind (py_index (sample_metadatas sample) 0) (\<lambda>m. Inr ())
      else Inr ())"

subsection \<open>\<open>hybrid_search\<close>\<close>

text \<open>
  The whole body is inside \<open>try\<close>; \<open>except Exception\<close> returns the nested empty
  literal.  The requests are \<open>count()\<close>, \<open>get(limit=1)\<close> and the query.
\<close>

definition hybrid_search ::
  "'d collection \<Rightarrow> json \<Rightarrow> filters option \<Rightarrow> int \<Rightarrow> 'd query_result \<times> request list" where
  "hybrid_search coll qtext metadata_filters n_results =
     (case on_count coll of
        Inl e \<Rightarrow> (nested_empty, [CountReq])
      | Inr cnt \<Rightarrow>
          (case ebind (on_get coll 1) log_sample of
             Inl e \<Rightarrow> (nested_empty, [CountReq, GetReq 1])
           | Inr u \<Rightarrow>
               ((case ebind (on_query coll qtext (n_results * 3) None)
                        (after_query metadata_filters n_results) of
                   Inl e \<Rightarrow> nested_empty
                 | Inr r \<Rightarrow> r),
                [CountReq, GetReq 1, QueryReq qtext (n_results * 3) None])))"


section \<open>\<open>MovieRAGSystem\<close>: intent parsing and the two retrieval flows\<close>

subsection \<open>\<open>_parse_user_intent\<close>\<close>

text \<open>
  The language model and \<open>json.loads\<close> are parameters.  \<open>llm\<close> maps the user message
  to the exception raised by the call or to the content of the first choice, which may
  be \<open>None\<close>; \<open>loads\<close> maps a text to \<open>JSONDecodeError\<close> (any error) or to the parsed
  value.
\<close>

definition code_fence :: string where
  "code_fence = [CHR 0x60, CHR 0x60, CHR 0x60]"

text \<open>
  \<^verbatim>\<open>if FENCE + "json" in intent_text:
      intent_text = intent_text.split(FENCE + "json")[1].split(FENCE)[0].strip()
  elif FENCE in intent_text:
      intent_text = intent_text.split(FENCE)[1].split(FENCE)[0].strip()\<close>
  where \<open>FENCE\<close> is three backquotes.
\<close>

definition between_fences :: "string \<Rightarrow> string \<Rightarrow> error + string" where
  "between_fences opening text =
     ebind (py_index (py_split opening text) 1) (\<lambda>rest.
     ebind (py_index (py_split code_fence rest) 0) (\<lambda>inner. Inr (py_strip inner)))"

definition strip_fence :: "string \<Rightarrow> error + string" where
  "strip_fence intent_text =
     (if str_in (code_fence @ ''json'') intent_text then
        between_fences (code_fence @ ''json'') intent_text
      else if str_in code_fence intent_text then
        between_fences code_fence intent_text
      else Inr intent_text)"

text \<open>The body of the \<open>try\<close> block.  The log line reads \<open>intent_data['type']\<close> and
  \<open>len(intent_data['filters'])\<close>.\<close>

definition parse_user_intent_try ::
  "(string \<Rightarrow> error + string option) \<Rightarrow> (string \<Rightarrow> error + json) \<Rightarrow> string \<Rightarrow> error + json" where
  "parse_user_intent_try llm loads query =
     ebind (llm query) (\<lambda>content.
     ebind (case content of None \<Rightarrow> Inl AttributeError | Some t \<Rightarrow> Inr (py_strip t)) (\<lambda>intent_text.
     ebind (strip_fence intent_text) (\<lambda>intent_text'.
     ebind (loads intent_text') (\<lambda>intent_data.
     ebind (py_subscript_key intent_data ''type'') (\<lambda>ty.
     ebind (py_subscript_key intent_data ''filters'') (\<lambda>fs.
     ebind (py_len fs) (\<lambda>k. Inr intent_data)))))))"

definition default_intent :: "string \<Rightarrow> json" where
  "default_intent query =
     JObj [(''type'', JStr ''search''), (''filters'', JObj []), (''search_query'', JStr query)]"

definition parse_user_intent ::
  "(string \<Rightarrow> error + string option) \<Rightarrow> (string \<Rightarrow> error + json) \<Rightarrow> string \<Rightarrow> json" where
  "parse_user_intent llm loads query =
     (case parse_user_intent_try llm loads query of
        Inl e \<Rightarrow> default_intent query
      | Inr intent_data \<Rightarrow> intent_data)"

subsection \<open>\<open>answer_question\<close> up to the retrieved documents\<close>

text \<open>\<open>if vector_query["filters"]: hybrid_search(...) else: query_similar(...)\<close>, with the
  result count the flow passes on.\<close>

definition retrieve ::
  "'d collection \<Rightarrow> vector_query \<Rightarrow> int \<Rightarrow> 'd query_result \<times> request list" where
  "retrieve coll vq k =
     (if (case filters vq of Some mf \<Rightarrow> mf \<noteq> [] | None \<Rightarrow> False)
      then hybrid_search coll (query_text vq) (filters vq) k
      else query_similar coll (query_text vq) k None)"

text \<open>
  \<^verbatim>\<open>if not results["documents"]: documents = []
  elif ... isinstance(results["documents"][0], list): documents = results["documents"][0]\<close>
  A field of \<open>query_result\<close> is a list of lists, so the last branch of the source
  (a flat field) does not arise.
\<close>

definition first_row :: "'a list list \<Rightarrow> 'a list" where
  "first_row field = (case field of [] \<Rightarrow> [] | row # rest \<Rightarrow> row)"

text \<open>An exception of \<open>_construct_vector_query\<close> reaches the \<open>except\<close> of the flow, which
  answers with an apology; the model returns the exception.\<close>

definition answer_question_documents ::
  "(string \<Rightarrow> error + string option) \<Rightarrow> (string \<Rightarrow> error + json) \<Rightarrow> (json \<Rightarrow> string) \<Rightarrow>
   'd collection \<Rightarrow> string \<Rightarrow> int \<Rightarrow> (error + string list) \<times> request list" where
  "answer_question_documents llm loads repr coll user_query n_results =
     (case construct_vector_query repr (parse_user_intent llm loads user_query) of
        Inl e \<Rightarrow> (Inl e, [])
      | Inr vq \<Rightarrow>
          (let (results, reqs) = retrieve coll vq n_results
           in (Inr (first_row (documents results)), reqs)))"

subsection \<open>\<open>get_recommendations\<close> up to the selected items\<close>

text \<open>\<open>meta.get("title") in excluded_titles\<close>: the list holds strings, so only a string
  title can be in it.\<close>

definition title_excluded :: "string list \<Rightarrow> meta \<Rightarrow> bool" where
  "title_excluded excluded_titles m =
     (case map_of m ''title'' of Some (MStr t) \<Rightarrow> t \<in> set excluded_titles | _ \<Rightarrow> False)"

text \<open>
  \<^verbatim>\<open>if excluded_titles and metadatas:
      (keep the pairs of zip(documents, metadatas) whose title is not excluded)
      documents = filtered_documents[:n_results]; metadatas = filtered_metadatas[:n_results]
  else:
      documents = documents[:n_results]
      metadatas = metadatas[:n_results] if metadatas else []\<close>
\<close>

definition exclude_titles ::
  "string list option \<Rightarrow> int \<Rightarrow> string list \<Rightarrow> meta list \<Rightarrow> string list \<times> meta list" where
  "exclude_titles excluded_titles n_results docs metas =
     (if (case excluded_titles of Some ts \<Rightarrow> ts \<noteq> [] | None \<Rightarrow> False) \<and> metas \<noteq> [] then
        (let kept = filter (\<lambda>(doc, m). \<not> title_excluded (the excluded_titles) m) (zip docs metas)
         in (py_take n_results (map fst kept), py_take n_results (map snd kept)))
      else (py_take n_results docs, if metas \<noteq> [] then py_take n_results metas else []))"

text \<open>\<open>if not results["documents"] or not results["metadatas"]: documents = []; metadatas = []\<close>,
  else the first row of each.\<close>

definition rows_of :: "'d query_result \<Rightarrow> string list \<times> meta list" where
  "rows_of results =
     (if documents results = [] \<or> metadatas results = [] then ([], [])
      else (first_row (documents results), first_row (metadatas results)))"

definition get_recommendations_items ::
  "(string \<Rightarrow> error + string option) \<Rightarrow> (string \<Rightarrow> error + json) \<Rightarrow> (json \<Rightarrow> string) \<Rightarrow>
   'd collection \<Rightarrow> string \<Rightarrow> int \<Rightarrow> string list option \<Rightarrow>
   (error + string list \<times> meta list) \<times> request list" where
  "get_recommendations_items llm loads repr coll preferences n_results excluded_titles =
     (case construct_vector_query repr
             (parse_user_intent llm loads (''Recommend movies based on '' @ preferences)) of
        Inl e \<Rightarrow> (Inl e, [])
      | Inr vq \<Rightarrow>
          (let (results, reqs) = retrieve coll vq (n_results * 2);
               (docs, metas) = rows_of results
           in (Inr (exclude_titles excluded_titles n_results docs metas), reqs)))"


section \<open>Reference notions, in the words of the specification\<close>

text \<open>A filter field of an intent is populated when it is present with a true value.\<close>

definition populated :: "(string \<times> json) list \<Rightarrow> string \<Rightarrow> bool" where
  "populated intent_filters key =
     (case map_of intent_filters key of Some v \<Rightarrow> truthy v | None \<Rightarrow> False)"

text \<open>
  Specification, FilterCompiler: ``genres/directors/actors: case-insensitive substring
  containment, OR-joined across the provided list''.
\<close>

definition spec_contains :: "string list \<Rightarrow> string \<Rightarrow> bool" where
  "spec_contains requested field_value =
     list_ex (\<lambda>r. str_in (py_lower r) (py_lower field_value)) requested"

text \<open>
  Specification, FilterCompiler: ``Genre matching additionally expands a small synonym
  table [...] if any synonym term of a requested genre is a substring of the document's
  genre field, it matches''.  The table has the one class of \<open>sci_fi_terms\<close>.
\<close>

definition spec_synonyms :: "string \<Rightarrow> string list" where
  "spec_synonyms requested =
     (if py_lower requested \<in> set sci_fi_terms then sci_fi_terms else [py_lower requested])"

definition spec_genre_match :: "string list \<Rightarrow> string \<Rightarrow> bool" where
  "spec_genre_match requested field_value =
     list_ex (\<lambda>r. list_ex (\<lambda>t. str_in t (py_lower field_value)) (spec_synonyms r)) requested"

text \<open>
  A year field that cannot be read as an integer: missing, empty (false), or one on
  which the conversion of \<open>item_year\<close> raises.
\<close>

definition unparsable_year :: "meta \<Rightarrow> bool" where
  "unparsable_year m =
     (case map_of m ''year'' of None \<Rightarrow> True | Some v \<Rightarrow> \<not> mtruthy v \<or> isl (item_year v))"


section \<open>Observing the requests, and sample data\<close>

text \<open>The result counts of the similarity queries among a list of requests.\<close>

fun query_sizes :: "request list \<Rightarrow> int list" where
  "query_sizes [] = []"
| "query_sizes (QueryReq q k w # rs) = k # query_sizes rs"
| "query_sizes (r # rs) = query_sizes rs"

text \<open>A store whose every operation raises, and one that works and finds no candidate.\<close>

definition failing_store :: "nat collection" where
  "failing_store =
     \<lparr>on_count = Inl (BackendError ''unavailable''),
      on_get = (\<lambda>k. Inl (BackendError ''unavailable'')),
      on_query = (\<lambda>q k w. Inl (BackendError ''unavailable''))\<rparr>"

definition no_match_store :: "nat collection" where
  "no_match_store =
     \<lparr>on_count = Inr 0,
      on_get = (\<lambda>k. Inr \<lparr>sample_ids = [], sample_metadatas = []\<rparr>),
      on_query = (\<lambda>q k w. Inr nested_empty)\<rparr>"

text \<open>An intent with one genre, as the language model may answer it.\<close>

definition drama_intent :: json where
  "drama_intent =
     JObj [(''type'', JStr ''recommendation''),
           (''filters'', JObj [(''genres'', JArr [JStr ''drama''])]),
           (''search_query'', JStr ''drama'')]"


text \<open>An intent that populates only the keyword fields, and a store holding two films.\<close>

definition keywords_intent :: "json \<Rightarrow> json" where
  "keywords_intent ks =
     JObj [(''type'', JStr ''search''),
           (''filters'', JObj [(''keywords'', ks), (''similar_to'', JArr [])]),
           (''search_query'', JStr ''space'')]"

definition jaws_meta :: meta where
  "jaws_meta = [(''title'', MStr ''Jaws''), (''year'', MStr ''1975''),
                (''genres'', MStr ''Adventure, Thriller''),
                (''directors'', MStr ''Steven Spielberg''),
                (''cast'', MStr ''Roy Scheider, Robert Shaw'')]"

definition inception_meta :: meta where
  "inception_meta = [(''title'', MStr ''Inception''), (''year'', MStr ''2010''),
                (''genres'', MStr ''Action, Sci-Fi''),
                (''directors'', MStr ''Christopher Nolan''),
                (''cast'', MStr ''Leonardo DiCaprio, Elliot Page'')]"

definition film_store :: "nat collection" where
  "film_store =
     \<lparr>on_count = Inr 2,
      on_get = (\<lambda>k. Inr \<lparr>sample_ids = [''tt1''], sample_metadatas = [jaws_meta]\<rparr>),
      on_query = (\<lambda>q k w. Inr \<lparr>ids = [[''tt1'', ''tt2'']], documents = [[''Jaws (1975)'', ''Inception (2010)'']],
                               metadatas = [[jaws_meta, inception_meta]], distances = [[1, 2]]\<rparr>)\<rparr>"

text \<open>The compiled filter set of the year range 2000 to 2010.\<close>

definition year_2000s :: filters where
  "year_2000s = [(''year'', [(''$gte'', ''2000''), (''$lte'', ''2010'')])]"

text \<open>An intent with the year range 2000 to 2010 and no other filter.\<close>

definition year_range_intent :: json where
  "year_range_intent =
     JObj [(''type'', JStr ''search''),
           (''filters'', JObj [(''year_range'', JArr [JNum 2000, JNum 2010])]),
           (''search_query'', JStr ''films'')]"

text \<open>
  An answer of the language model that wraps its JSON text in a fenced block, and a
  \<open>loads\<close> that accepts the one text \<open>{}\<close>.
\<close>

definition fenced_answer :: string where
  "fenced_answer =
     ''Sure: '' @ code_fence @ ''json'' @ [CHR 0x0A] @ ''{}'' @ [CHR 0x0A] @ code_fence"

definition loads_braces :: "string \<Rightarrow> error + json" where
  "loads_braces t = (if t = ''{}'' then Inr drama_intent else Inl ValueError)"

text \<open>The same JSON text in a fence whose tag is written in capitals.\<close>

definition tagged_answer :: string where
  "tagged_answer = code_fence @ ''JSON'' @ [CHR 0x0A] @ ''{}'' @ [CHR 0x0A] @ code_fence"

text \<open>Intents with two genres, and with a director and an actor; one more film.\<close>

definition scifi_drama_intent :: json where
  "scifi_drama_intent =
     JObj [(''type'', JStr ''search''),
           (''filters'', JObj [(''genres'', JArr [JStr ''sci-fi'', JStr ''drama''])]),
           (''search_query'', JStr ''films'')]"

definition godfather_meta :: meta where
  "godfather_meta = [(''title'', MStr ''The Godfather''), (''year'', MStr ''1972''),
                     (''genres'', MStr ''Crime, Drama'')]"

definition nolan_intent :: json where
  "nolan_intent =
     JObj [(''type'', JStr ''search''),
           (''filters'', JObj [(''directors'', JArr [JStr ''Christopher Nolan'']),
                               (''actors'', JArr [JStr ''Leonardo DiCaprio''])]),
           (''search_query'', JStr ''heist'')]"

section \<open>Basic facts about the primitives\<close>

lemma py_take_nonneg: "0 \<le> n \<Longrightarrow> py_take n xs = take (nat n) xs"
  by (simp add: py_take_def)

lemma length_py_take: "0 \<le> n \<Longrightarrow> length (py_take n xs) \<le> nat n"
  by (simp add: py_take_nonneg)

lemma subseq_take_filter: "subseq (take k (filter P xs)) xs"
proof -
  have "subseq (take k (filter P xs)) (filter P xs)"
    by (rule prefix_imp_subseq) (rule take_is_prefix)
  also have "subseq (filter P xs) xs" by simp
  finally show ?thesis .
qed


lemma ebind_Inl [simp]: "ebind (Inl e) f = Inl e"
  by (simp add: ebind_def)

lemma ebind_Inr [simp]: "ebind (Inr v) f = f v"
  by (simp add: ebind_def)


section \<open>The exclusion list of the recommendation flow\<close>

text \<open>
  Claim C7.  With a non-empty exclusion list and retrieved metadata, and a requested
  count \<open>n \<ge> 0\<close>, the items \<open>get_recommendations\<close> keeps are the first \<open>n\<close>
  survivors of the retrieved (document, metadata) pairs, a survivor being a pair whose
  title is not in the list.  So no kept item has an excluded title, the kept items are
  a subsequence of the retrieved ones (their relative order is unchanged), and their
  number is the smaller of \<open>n\<close> and the number of survivors: a survivor from beyond
  position \<open>n\<close> fills the place of a removed entry.
\<close>

theorem exclusion_law:
  assumes "ts \<noteq> []" and "metas \<noteq> []" and "0 \<le> n"
  shows "zip (fst (exclude_titles (Some ts) n docs metas))
             (snd (exclude_titles (Some ts) n docs metas))
           = take (nat n) (filter (\<lambda>(doc, m). \<not> title_excluded ts m) (zip docs metas))
       \<and> list_all (\<lambda>m. \<not> title_excluded ts m) (snd (exclude_titles (Some ts) n docs metas))
       \<and> subseq (zip (fst (exclude_titles (Some ts) n docs metas))
                     (snd (exclude_titles (Some ts) n docs metas))) (zip docs metas)
       \<and> length (snd (exclude_titles (Some ts) n docs metas))
           = min (nat n) (length (filter (\<lambda>(doc, m). \<not> title_excluded ts m) (zip docs metas)))"
proof -
  let ?kept = "filter (\<lambda>(doc, m). \<not> title_excluded ts m) (zip docs metas)"
  have r: "exclude_titles (Some ts) n docs metas
             = (map fst (take (nat n) ?kept), map snd (take (nat n) ?kept))"
    using assms by (simp add: exclude_titles_def py_take_nonneg take_map Let_def)
  have z: "zip (map fst (take (nat n) ?kept)) (map snd (take (nat n) ?kept)) = take (nat n) ?kept"
    by (simp add: zip_map_fst_snd)
  have a: "list_all (\<lambda>m. \<not> title_excluded ts m) (map snd (take (nat n) ?kept))"
    by (auto simp: list_all_iff dest!: in_set_takeD)
  show ?thesis
    unfolding r using z a by (simp add: subseq_take_filter)
qed

text \<open>
  With \<open>Inception\<close> excluded and two items requested, the second retrieved item is
  dropped and the third one, from beyond the boundary, takes its place.
\<close>

theorem exclusion_law_witness:
  "exclude_titles (Some [''Inception'']) 2 [''d1'', ''d2'', ''d3'', ''d4'']
     [[(''title'', MStr ''Heat'')], [(''title'', MStr ''Inception'')],
      [(''title'', MStr ''Alien'')], [(''title'', MStr ''Brazil'')]]
   = ([''d1'', ''d3''], [[(''title'', MStr ''Heat'')], [(''title'', MStr ''Alien'')]])"
  using exclusion_law [of "[''Inception'']"
      "[[(''title'', MStr ''Heat'')], [(''title'', MStr ''Inception'')],
        [(''title'', MStr ''Alien'')], [(''title'', MStr ''Brazil'')]]" 2
      "[''d1'', ''d2'', ''d3'', ''d4'']"]
  by (simp add: exclude_titles_def title_excluded_def py_take_def)


text \<open>
  The recommendation flow hands the first rows of the retrieved documents and metadata,
  and the requested count, to the exclusion step, and returns what it keeps.
\<close>

lemma recommendations_flow_exclusion:
  assumes "construct_vector_query repr
             (parse_user_intent llm loads (''Recommend movies based on '' @ preferences)) = Inr vq"
    and "retrieve coll vq (n * 2) = (results, reqs)" and "rows_of results = (docs, metas)"
  shows "get_recommendations_items llm loads repr coll preferences n excluded
           = (Inr (exclude_titles excluded n docs metas), reqs)"
  using assms by (simp add: get_recommendations_items_def)

text \<open>
  One item requested from a store that answers with Jaws and Inception: with Jaws
  excluded the flow returns Inception, and Jaws with no exclusion list.
\<close>

lemma recommendations_exclusion_example:
  "fst (get_recommendations_items (\<lambda>q. Inr (Some ''{}'')) (\<lambda>t. Inr (keywords_intent (JArr [])))
          (\<lambda>v. []) film_store ''space films'' 1 (Some [''Jaws'']))
     = Inr ([''Inception (2010)''], [inception_meta])"
  "fst (get_recommendations_items (\<lambda>q. Inr (Some ''{}'')) (\<lambda>t. Inr (keywords_intent (JArr [])))
          (\<lambda>v. []) film_store ''space films'' 1 None)
     = Inr ([''Jaws (1975)''], [jaws_meta])"
  by code_simp+


section \<open>How many candidates the store is asked for\<close>

lemma construct_filters_nonempty:
  "construct_vector_query repr i = Inr vq \<Longrightarrow> filters vq \<noteq> Some []"
  by (auto simp: construct_vector_query_def ebind_def split: sum.splits if_splits)

lemma query_sizes_hybrid_subset:
  "set (query_sizes (snd (hybrid_search coll q mf n))) \<subseteq> {n * 3}"
  by (simp add: hybrid_search_def split: sum.splits)

lemma query_sizes_hybrid:
  "on_count coll = Inr c \<Longrightarrow> ebind (on_get coll 1) log_sample = Inr u \<Longrightarrow>
   query_sizes (snd (hybrid_search coll q mf n)) = [n * 3]"
  by (simp add: hybrid_search_def)

lemma query_sizes_similar: "query_sizes (snd (query_similar coll q n w)) = [n]"
  by (simp add: query_similar_def)

lemma requests_recommendations:
  "construct_vector_query repr
     (parse_user_intent llm loads (''Recommend movies based on '' @ prefs)) = Inr vq \<Longrightarrow>
   snd (get_recommendations_items llm loads repr coll prefs n ex) = snd (retrieve coll vq (n * 2))"
  by (simp add: get_recommendations_items_def split: prod.splits)

lemma requests_answer:
  "construct_vector_query repr (parse_user_intent llm loads uq) = Inr vq \<Longrightarrow>
   snd (answer_question_documents llm loads repr coll uq n) = snd (retrieve coll vq n)"
  by (simp add: answer_question_documents_def split: prod.splits)

lemma strip_fence_braces: "strip_fence (py_strip ''{}'') = Inr ''{}''"
  by code_simp

lemma drama_parsed:
  "parse_user_intent (\<lambda>q. Inr (Some ''{}'')) (\<lambda>t. Inr drama_intent) s = drama_intent"
  by (simp add: parse_user_intent_def parse_user_intent_try_def ebind_def strip_fence_braces)
     (simp add: drama_intent_def)

lemma drama_compiled:
  "construct_vector_query (\<lambda>v. []) drama_intent
     = Inr \<lparr>query_text = JStr ''drama'',
            filters = Some [(''genres'', [(''$contains'', ''drama'')])]\<rparr>"
  by code_simp

lemma drama_query:
  "construct_vector_query (\<lambda>v. [])
     (parse_user_intent (\<lambda>q. Inr (Some ''{}'')) (\<lambda>t. Inr drama_intent) s)
     = Inr \<lparr>query_text = JStr ''drama'',
            filters = Some [(''genres'', [(''$contains'', ''drama'')])]\<rparr>"
  by (simp only: drama_parsed drama_compiled)

text \<open>
  Claim C2, as the code has it.  \<open>hybrid_search\<close> sends one similarity query, for
  three times the count it is called with (once \<open>count()\<close> and the sample \<open>get\<close>
  before it have returned; when one of them raises, no query is sent at all).
  \<open>get_recommendations\<close> calls the retrieval with twice the requested count \<open>n\<close>, so
  with a compiled filter set the store is asked for \<open>6 * n\<close> candidates, and without
  one, on the semantic branch, for \<open>2 * n\<close>.
\<close>

theorem overfetch_factors:
  assumes "on_count coll = Inr c" and "ebind (on_get coll 1) log_sample = Inr u"
    and "construct_vector_query repr
           (parse_user_intent llm loads (''Recommend movies based on '' @ prefs)) = Inr vq"
  shows "query_sizes (snd (hybrid_search coll q mf n)) = [n * 3]
       \<and> (filters vq \<noteq> None \<longrightarrow>
            query_sizes (snd (get_recommendations_items llm loads repr coll prefs n ex)) = [n * 6])
       \<and> (filters vq = None \<longrightarrow>
            query_sizes (snd (get_recommendations_items llm loads repr coll prefs n ex)) = [n * 2])"
proof (intro conjI impI)
  show "query_sizes (snd (hybrid_search coll q mf n)) = [n * 3]"
    using assms(1,2) by (rule query_sizes_hybrid)
next
  assume f: "filters vq \<noteq> None"
  with construct_filters_nonempty [OF assms(3)]
  have h: "retrieve coll vq (n * 2) = hybrid_search coll (query_text vq) (filters vq) (n * 2)"
    by (auto simp: retrieve_def split: option.splits)
  have e: "n * 2 * 3 = n * 6" by simp
  have r: "snd (get_recommendations_items llm loads repr coll prefs n ex)
             = snd (hybrid_search coll (query_text vq) (filters vq) (n * 2))"
    by (simp only: requests_recommendations [OF assms(3)] h)
  have "query_sizes (snd (hybrid_search coll (query_text vq) (filters vq) (n * 2))) = [n * 2 * 3]"
    using assms(1,2) by (rule query_sizes_hybrid)
  then show "query_sizes (snd (get_recommendations_items llm loads repr coll prefs n ex)) = [n * 6]"
    unfolding r e .
next
  assume "filters vq = None"
  then show "query_sizes (snd (get_recommendations_items llm loads repr coll prefs n ex)) = [n * 2]"
    by (simp add: requests_recommendations [OF assms(3)] retrieve_def query_sizes_similar)
qed

text \<open>
  Five recommendations with a genre filter: the store is asked for 30 candidates, not
  for \<open>5 * 2\<close>.
\<close>

theorem recommendation_overfetch_counterexample:
  "query_sizes (snd (get_recommendations_items (\<lambda>q. Inr (Some ''{}'')) (\<lambda>t. Inr drama_intent)
       (\<lambda>v. []) no_match_store ''drama'' 5 None)) = [30]
   \<and> (30 :: int) \<noteq> 5 * 2"
  by (simp add: requests_recommendations [OF drama_query] retrieve_def hybrid_search_def
       no_match_store_def ebind_def log_sample_def)

theorem overfetch_factors_witness:
  "query_sizes (snd (hybrid_search no_match_store (JStr ''drama'') None 5)) = [15]
   \<and> query_sizes (snd (get_recommendations_items (\<lambda>q. Inr (Some ''{}'')) (\<lambda>t. Inr drama_intent)
       (\<lambda>v. []) no_match_store ''drama'' 5 None)) = [30]"
  using overfetch_factors [of no_match_store 0 "()" "\<lambda>v. []"
      "\<lambda>q. Inr (Some ''{}'')" "\<lambda>t. Inr drama_intent" "''drama''"
      "\<lparr>query_text = JStr ''drama'',
        filters = Some [(''genres'', [(''$contains'', ''drama'')])]\<rparr>"
      "JStr ''drama''" None 5 None]
    drama_query [of "''Recommend movies based on drama''"]
  by (simp add: no_match_store_def ebind_def log_sample_def)


section \<open>What the retrieval operations return when the store raises\<close>

lemma hybrid_search_failure:
  "on_count coll = Inl e \<or> on_get coll 1 = Inl e \<or> on_query coll q (n * 3) None = Inl e
   \<Longrightarrow> fst (hybrid_search coll q mf n) = nested_empty"
  by (auto simp: hybrid_search_def ebind_def split: sum.splits)

lemma apply_filters_none_kept:
  "py_index (metadatas results) 0 = Inr metas \<Longrightarrow> filtered_from mf 0 metas = Inr [] \<Longrightarrow>
   apply_filters mf n results = Inr nested_empty"
  by (simp add: apply_filters_def ebind_def)

lemma hybrid_search_none_kept:
  assumes "on_count coll = Inr c" and "ebind (on_get coll 1) log_sample = Inr u"
    and "on_query coll q (n * 3) None = Inr results"
    and "py_index (ids results) 0 = Inr ids0" and "ids0 \<noteq> []" and "mf \<noteq> []"
    and "py_index (metadatas results) 0 = Inr metas" and "filtered_from mf 0 metas = Inr []"
  shows "fst (hybrid_search coll q (Some mf) n) = nested_empty"
  using assms
  by (simp add: hybrid_search_def after_query_def ebind_def apply_filters_none_kept)

text \<open>
  Claim C3, as the code has it.  When the query raises, \<open>query_similar\<close> returns the
  flat empty literal (every field \<open>[]\<close>); when any of its three store calls raises,
  \<open>hybrid_search\<close> returns the nested empty literal (every field \<open>[[]]\<close>), which is
  also its result when the filter pass keeps no candidate.  Both operations return a
  value in every case, and from either literal a caller extracts the empty list of
  documents.
\<close>

theorem failure_envelopes:
  fixes coll :: "'d collection"
  shows "(on_query coll q n w = Inl e \<longrightarrow> fst (query_similar coll q n w) = flat_empty)
   \<and> (on_count coll = Inl e \<or> on_get coll 1 = Inl e \<or> on_query coll q (n * 3) None = Inl e
        \<longrightarrow> fst (hybrid_search coll q mf n) = nested_empty)
   \<and> (on_count coll = Inr c \<and> ebind (on_get coll 1) log_sample = Inr u
        \<and> on_query coll q (n * 3) None = Inr results
        \<and> py_index (ids results) 0 = Inr ids0 \<and> ids0 \<noteq> [] \<and> fs \<noteq> []
        \<and> py_index (metadatas results) 0 = Inr metas \<and> filtered_from fs 0 metas = Inr []
        \<longrightarrow> fst (hybrid_search coll q (Some fs) n) = nested_empty)
   \<and> first_row (documents (flat_empty :: 'd query_result)) = []
   \<and> first_row (documents (nested_empty :: 'd query_result)) = []"
proof (intro conjI impI)
  assume "on_query coll q n w = Inl e"
  then show "fst (query_similar coll q n w) = flat_empty"
    by (simp add: query_similar_def)
next
  assume "on_count coll = Inl e \<or> on_get coll 1 = Inl e \<or> on_query coll q (n * 3) None = Inl e"
  then show "fst (hybrid_search coll q mf n) = nested_empty"
    by (rule hybrid_search_failure)
next
  assume "on_count coll = Inr c \<and> ebind (on_get coll 1) log_sample = Inr u
        \<and> on_query coll q (n * 3) None = Inr results
        \<and> py_index (ids results) 0 = Inr ids0 \<and> ids0 \<noteq> [] \<and> fs \<noteq> []
        \<and> py_index (metadatas results) 0 = Inr metas \<and> filtered_from fs 0 metas = Inr []"
  then show "fst (hybrid_search coll q (Some fs) n) = nested_empty"
    by (blast intro: hybrid_search_none_kept)
next
  show "first_row (documents (flat_empty :: 'd query_result)) = []"
    by (simp add: first_row_def flat_empty_def)
next
  show "first_row (documents (nested_empty :: 'd query_result)) = []"
    by (simp add: first_row_def nested_empty_def)
qed

text \<open>
  The two literals differ, and \<open>query_similar\<close> on a failing store differs from
  \<open>query_similar\<close> on a store that answers with no candidate: the field \<open>ids\<close> is
  \<open>[]\<close> in one and \<open>[[]]\<close> in the other.
\<close>

theorem failure_envelope_counterexample:
  "fst (query_similar failing_store (JStr ''space'') 5 None)
     \<noteq> fst (query_similar no_match_store (JStr ''space'') 5 None)
   \<and> fst (query_similar failing_store (JStr ''space'') 5 None)
     \<noteq> fst (hybrid_search failing_store (JStr ''space'') None 5)
   \<and> ids (fst (query_similar failing_store (JStr ''space'') 5 None)) = []
   \<and> ids (fst (query_similar no_match_store (JStr ''space'') 5 None)) = [[]]"
  by (simp add: query_similar_def hybrid_search_def failing_store_def no_match_store_def
      flat_empty_def nested_empty_def)

theorem failure_envelopes_witness:
  "fst (query_similar failing_store (JStr ''space'') 5 None) = flat_empty
   \<and> fst (hybrid_search failing_store (JStr ''space'') None 5) = nested_empty"
  using failure_envelopes [of failing_store "JStr ''space''" 5 None
      "BackendError ''unavailable''" None]
  by (simp add: failing_store_def)


section \<open>Filter compilation reads four fields of the filters only\<close>

lemma py_contains_obj: "py_contains key (JObj f) = Inr (map_of f key \<noteq> None)"
  by (simp add: map_of_eq_None_iff)

lemma add_contains_obj:
  "add_contains (JObj f) key target fs =
     (case map_of f key of
        None \<Rightarrow> Inr fs
      | Some v \<Rightarrow> if truthy v
                   then ebind (join_field ''|'' v)
                          (\<lambda>joined. Inr (AList.update target [(''$contains'', joined)] fs))
                   else Inr fs)"
  by (simp del: py_contains.simps add: add_contains_def py_contains_obj ebind_def split: option.splits)

lemma add_contains_cong:
  "map_of f' key = map_of f key \<Longrightarrow>
   add_contains (JObj f') key target fs = add_contains (JObj f) key target fs"
  by (simp add: add_contains_obj)

lemma add_contains_unpopulated:
  "\<not> populated f key \<Longrightarrow> add_contains (JObj f) key target fs = Inr fs"
  by (simp add: add_contains_obj populated_def split: option.splits)

lemma add_year_obj:
  "add_year repr (JObj f) fs =
     (case map_of f ''year_range'' of
        None \<Rightarrow> Inr fs
      | Some v \<Rightarrow> if truthy v then add_year repr (JObj [(''year_range'', v)]) fs else Inr fs)"
  by (simp del: py_contains.simps add: add_year_def py_contains_obj ebind_def split: option.splits)

lemma add_year_cong:
  "map_of f' ''year_range'' = map_of f ''year_range'' \<Longrightarrow>
   add_year repr (JObj f') fs = add_year repr (JObj f) fs"
  by (simp add: add_year_obj [of repr f'] add_year_obj [of repr f])

lemma add_year_unpopulated:
  "\<not> populated f ''year_range'' \<Longrightarrow> add_year repr (JObj f) fs = Inr fs"
  by (simp add: add_year_obj [of repr f] populated_def split: option.splits)

lemma construct_obj:
  "map_of kv ''filters'' = Some intent_filters \<Longrightarrow>
   construct_vector_query repr (JObj kv) =
     ebind (add_contains intent_filters ''genres'' ''genres'' []) (\<lambda>f1.
     ebind (add_year repr intent_filters f1) (\<lambda>f2.
     ebind (add_contains intent_filters ''directors'' ''directors'' f2) (\<lambda>f3.
     ebind (add_contains intent_filters ''actors'' ''cast'' f3) (\<lambda>f4.
       Inr \<lparr>query_text = (case map_of kv ''search_query'' of Some v \<Rightarrow> v | None \<Rightarrow> JStr []),
            filters = (if f4 \<noteq> [] then Some f4 else None)\<rparr>))))"
  by (simp add: construct_vector_query_def)

lemma construct_cong:
  assumes "map_of kv ''filters'' = Some (JObj f)" and "map_of kv' ''filters'' = Some (JObj f')"
    and "map_of kv' ''search_query'' = map_of kv ''search_query''"
    and "list_all (\<lambda>k. map_of f' k = map_of f k) [''genres'', ''year_range'', ''directors'', ''actors'']"
  shows "construct_vector_query repr (JObj kv') = construct_vector_query repr (JObj kv)"
proof -
  have g: "add_contains (JObj f') ''genres'' t fs = add_contains (JObj f) ''genres'' t fs" for t fs
    using assms(4) by (intro add_contains_cong) simp
  have d: "add_contains (JObj f') ''directors'' t fs = add_contains (JObj f) ''directors'' t fs" for t fs
    using assms(4) by (intro add_contains_cong) simp
  have a: "add_contains (JObj f') ''actors'' t fs = add_contains (JObj f) ''actors'' t fs" for t fs
    using assms(4) by (intro add_contains_cong) simp
  have y: "add_year repr (JObj f') fs = add_year repr (JObj f) fs" for fs
    using assms(4) by (intro add_year_cong) simp
  show ?thesis
    by (simp only: construct_obj [OF assms(1)] construct_obj [OF assms(2)] g d a y assms(3))
qed

lemma construct_unpopulated:
  assumes "map_of kv ''filters'' = Some (JObj f)"
    and "list_all (\<lambda>k. \<not> populated f k) [''genres'', ''year_range'', ''directors'', ''actors'']"
  shows "construct_vector_query repr (JObj kv) =
           Inr \<lparr>query_text = (case map_of kv ''search_query'' of Some v \<Rightarrow> v | None \<Rightarrow> JStr []),
                filters = None\<rparr>"
  using assms(2)
  by (simp add: construct_obj [OF assms(1)] add_contains_unpopulated add_year_unpopulated)

lemma ebind_assoc: "ebind (ebind m f) g = ebind m (\<lambda>x. ebind (f x) g)"
  by (cases m) (simp_all add: ebind_def)

lemma construct_non_obj:
  "dict_get_default i key dflt = Inl e \<Longrightarrow> construct_vector_query repr i = Inl AttributeError"
  by (cases i) (simp_all add: construct_vector_query_def)

lemma dict_get_default_obj:
  "dict_get_default i key dflt = Inr v \<Longrightarrow> \<exists>kv. i = JObj kv"
  by (cases i) simp_all

lemma construct_filters_only:
  assumes "dict_get_default (JObj kv) ''filters'' (JObj []) = Inr fs"
  shows "map_sum id filters (construct_vector_query repr (JObj kv)) =
     ebind (add_contains fs ''genres'' ''genres'' []) (\<lambda>f1.
     ebind (add_year repr fs f1) (\<lambda>f2.
     ebind (add_contains fs ''directors'' ''directors'' f2) (\<lambda>f3.
     ebind (add_contains fs ''actors'' ''cast'' f3) (\<lambda>f4.
       Inr (if f4 \<noteq> [] then Some f4 else None)))))"
proof -
  have m: "map_sum id filters (ebind x (\<lambda>v. k v)) = ebind x (\<lambda>v. map_sum id filters (k v))"
    for x :: "error + filters" and k
    by (cases x) (simp_all add: ebind_def)
  have c: "construct_vector_query repr (JObj kv) =
     ebind (add_contains fs ''genres'' ''genres'' []) (\<lambda>f1.
     ebind (add_year repr fs f1) (\<lambda>f2.
     ebind (add_contains fs ''directors'' ''directors'' f2) (\<lambda>f3.
     ebind (add_contains fs ''actors'' ''cast'' f3) (\<lambda>f4.
       Inr \<lparr>query_text = (case map_of kv ''search_query'' of Some v \<Rightarrow> v | None \<Rightarrow> JStr []),
            filters = (if f4 \<noteq> [] then Some f4 else None)\<rparr>))))"
    using assms by (simp add: construct_vector_query_def)
  show ?thesis
    unfolding c by (simp only: m) simp
qed

lemma construct_same_filters:
  assumes "dict_get_default i1 ''filters'' (JObj []) = dict_get_default i2 ''filters'' (JObj [])"
  shows "map_sum id filters (construct_vector_query repr i1)
       = map_sum id filters (construct_vector_query repr i2)"
proof (cases "dict_get_default i1 ''filters'' (JObj [])")
  case (Inl e)
  with assms have "dict_get_default i2 ''filters'' (JObj []) = Inl e" by simp
  with Inl show ?thesis by (simp only: construct_non_obj)
next
  case (Inr fs)
  with assms have 2: "dict_get_default i2 ''filters'' (JObj []) = Inr fs" by simp
  from Inr obtain kv1 where 1: "i1 = JObj kv1" by (auto dest: dict_get_default_obj)
  from 2 obtain kv2 where 3: "i2 = JObj kv2" by (auto dest: dict_get_default_obj)
  show ?thesis
    using Inr 2 unfolding 1 3 by (simp only: construct_filters_only)
qed

lemma construct_unpopulated':
  assumes "dict_get_default i ''filters'' (JObj []) = Inr (JObj f)"
    and "list_all (\<lambda>k. \<not> populated f k) [''genres'', ''year_range'', ''directors'', ''actors'']"
  shows "map_sum id filters (construct_vector_query repr i) = Inr None"
proof -
  from assms(1) obtain kv where i: "i = JObj kv" by (auto dest: dict_get_default_obj)
  show ?thesis
    using assms(2) unfolding i construct_filters_only [OF assms(1) [unfolded i]]
    by (simp add: add_contains_unpopulated add_year_unpopulated)
qed

lemma retrieve_no_filters:
  "retrieve coll \<lparr>query_text = q, filters = None\<rparr> n = query_similar coll q n None"
  by (simp add: retrieve_def)

lemma keywords_parsed:
  "parse_user_intent (\<lambda>q. Inr (Some ''{}'')) (\<lambda>t. Inr (keywords_intent ks)) s = keywords_intent ks"
  by (simp add: parse_user_intent_def parse_user_intent_try_def strip_fence_braces)
     (simp add: keywords_intent_def)

text \<open>
  Claim C8.  The compiled filter set is a function of the intent's filters alone: two
  intents with the same \<open>filters\<close> entry (whatever their type and search text) compile
  to the same filter set, or raise the same exception.  When the filters are a
  dictionary none of whose fields is populated, the compiled filter set is \<open>None\<close>,
  and the retrieval with such a query is \<open>query_similar\<close>, the semantic path.
\<close>

theorem compile_deterministic:
  "(dict_get_default i1 ''filters'' (JObj []) = dict_get_default i2 ''filters'' (JObj [])
      \<longrightarrow> map_sum id filters (construct_vector_query repr i1)
            = map_sum id filters (construct_vector_query repr i2))
   \<and> (dict_get_default i ''filters'' (JObj []) = Inr (JObj f)
       \<and> list_all (\<lambda>k. \<not> populated f k)
            [''genres'', ''year_range'', ''actors'', ''directors'', ''similar_to'', ''keywords'']
      \<longrightarrow> map_sum id filters (construct_vector_query repr i) = Inr None
          \<and> retrieve coll \<lparr>query_text = q, filters = None\<rparr> n = query_similar coll q n None)"
proof (intro conjI impI)
  assume "dict_get_default i1 ''filters'' (JObj []) = dict_get_default i2 ''filters'' (JObj [])"
  then show "map_sum id filters (construct_vector_query repr i1)
            = map_sum id filters (construct_vector_query repr i2)"
    by (rule construct_same_filters)
next
  assume a: "dict_get_default i ''filters'' (JObj []) = Inr (JObj f)
       \<and> list_all (\<lambda>k. \<not> populated f k)
            [''genres'', ''year_range'', ''actors'', ''directors'', ''similar_to'', ''keywords'']"
  then have "list_all (\<lambda>k. \<not> populated f k) [''genres'', ''year_range'', ''directors'', ''actors'']"
    by simp
  with a show "map_sum id filters (construct_vector_query repr i) = Inr None"
    by (blast intro: construct_unpopulated')
next
  show "retrieve coll \<lparr>query_text = q, filters = None\<rparr> n = query_similar coll q n None"
    by (rule retrieve_no_filters)
qed

text \<open>
  Two intents with the one genre filter compile alike; an intent whose fields are an
  empty list and \<open>null\<close> compiles to \<open>None\<close>.
\<close>

theorem compile_deterministic_witness:
  "map_sum id filters (construct_vector_query (\<lambda>v. []) drama_intent)
     = map_sum id filters (construct_vector_query (\<lambda>v. [])
         (JObj [(''filters'', JObj [(''genres'', JArr [JStr ''drama''])])]))
   \<and> map_sum id filters (construct_vector_query (\<lambda>v. [])
         (JObj [(''filters'', JObj [(''genres'', JArr []), (''year_range'', JNull)])])) = Inr None"
  using compile_deterministic [of drama_intent
      "JObj [(''filters'', JObj [(''genres'', JArr [JStr ''drama''])])]" "\<lambda>v. []"
      "JObj [(''filters'', JObj [(''genres'', JArr []), (''year_range'', JNull)])]"
      "[(''genres'', JArr []), (''year_range'', JNull)]" no_match_store "JStr []" 0]
  by (simp add: drama_intent_def populated_def)

text \<open>
  Claim C9.  Take two intents whose filters agree on \<open>genres\<close>, \<open>year_range\<close>,
  \<open>directors\<close> and \<open>actors\<close> and that have the same search text; they may differ
  in \<open>keywords\<close>, \<open>similar_to\<close> or anything else.  Then \<open>answer_question\<close>
  retrieves the same documents with the same store requests for both.  If none of the
  four fields is populated, the compiled filter set is \<open>None\<close> and the retrieval is
  the one similarity query of \<open>query_similar\<close> for \<open>n\<close> results.
\<close>

theorem ignored_filter_fields:
  assumes "parse_user_intent llm loads uq = JObj kv"
    and "parse_user_intent llm' loads' uq' = JObj kv'"
    and "map_of kv ''filters'' = Some (JObj f)" and "map_of kv' ''filters'' = Some (JObj f')"
    and "map_of kv' ''search_query'' = map_of kv ''search_query''"
    and "list_all (\<lambda>k. map_of f' k = map_of f k) [''genres'', ''year_range'', ''directors'', ''actors'']"
  shows "answer_question_documents llm' loads' repr coll uq' n
           = answer_question_documents llm loads repr coll uq n
       \<and> (list_all (\<lambda>k. \<not> populated f k) [''genres'', ''year_range'', ''directors'', ''actors'']
            \<longrightarrow> map_sum id filters (construct_vector_query repr (JObj kv)) = Inr None
              \<and> answer_question_documents llm loads repr coll uq n
                  = (Inr (first_row (documents (fst (query_similar coll
                        (case map_of kv ''search_query'' of Some v \<Rightarrow> v | None \<Rightarrow> JStr []) n None)))),
                     [QueryReq (case map_of kv ''search_query'' of Some v \<Rightarrow> v | None \<Rightarrow> JStr [])
                        n None]))"
proof (intro conjI impI)
  have "construct_vector_query repr (JObj kv') = construct_vector_query repr (JObj kv)"
    using assms(3-6) by (rule construct_cong)
  then show "answer_question_documents llm' loads' repr coll uq' n
           = answer_question_documents llm loads repr coll uq n"
    by (simp add: answer_question_documents_def assms(1,2))
next
  assume u: "list_all (\<lambda>k. \<not> populated f k) [''genres'', ''year_range'', ''directors'', ''actors'']"
  have c: "construct_vector_query repr (JObj kv) =
           Inr \<lparr>query_text = (case map_of kv ''search_query'' of Some v \<Rightarrow> v | None \<Rightarrow> JStr []),
                filters = None\<rparr>"
    using assms(3) u by (rule construct_unpopulated)
  show "map_sum id filters (construct_vector_query repr (JObj kv)) = Inr None"
    by (simp add: c)
  show "answer_question_documents llm loads repr coll uq n
                  = (Inr (first_row (documents (fst (query_similar coll
                        (case map_of kv ''search_query'' of Some v \<Rightarrow> v | None \<Rightarrow> JStr []) n None)))),
                     [QueryReq (case map_of kv ''search_query'' of Some v \<Rightarrow> v | None \<Rightarrow> JStr [])
                        n None])"
    by (simp add: answer_question_documents_def assms(1) c retrieve_no_filters query_similar_def)
qed

text \<open>
  Two intents that differ in their keywords only retrieve the same two documents, by
  one semantic query.
\<close>

theorem ignored_filter_fields_witness:
  "answer_question_documents (\<lambda>q. Inr (Some ''{}''))
       (\<lambda>t. Inr (keywords_intent (JArr [JStr ''ocean'']))) (\<lambda>v. []) film_store ''films'' 5
     = answer_question_documents (\<lambda>q. Inr (Some ''{}''))
       (\<lambda>t. Inr (keywords_intent (JArr [JStr ''desert'']))) (\<lambda>v. []) film_store ''films'' 5
   \<and> answer_question_documents (\<lambda>q. Inr (Some ''{}''))
       (\<lambda>t. Inr (keywords_intent (JArr [JStr ''desert'']))) (\<lambda>v. []) film_store ''films'' 5
     = (Inr [''Jaws (1975)'', ''Inception (2010)''], [QueryReq (JStr ''space'') 5 None])"
proof -
  have p: "parse_user_intent (\<lambda>q. Inr (Some ''{}''))
             (\<lambda>t. Inr (keywords_intent (JArr [JStr ''desert'']))) ''films''
           = JObj [(''type'', JStr ''search''),
                   (''filters'', JObj [(''keywords'', JArr [JStr ''desert'']), (''similar_to'', JArr [])]),
                   (''search_query'', JStr ''space'')]"
    unfolding keywords_parsed by (simp add: keywords_intent_def)
  have p': "parse_user_intent (\<lambda>q. Inr (Some ''{}''))
             (\<lambda>t. Inr (keywords_intent (JArr [JStr ''ocean'']))) ''films''
           = JObj [(''type'', JStr ''search''),
                   (''filters'', JObj [(''keywords'', JArr [JStr ''ocean'']), (''similar_to'', JArr [])]),
                   (''search_query'', JStr ''space'')]"
    unfolding keywords_parsed by (simp add: keywords_intent_def)
  show ?thesis
    using ignored_filter_fields [OF p p',
      where f = "[(''keywords'', JArr [JStr ''desert'']), (''similar_to'', JArr [])]"
        and f' = "[(''keywords'', JArr [JStr ''ocean'']), (''similar_to'', JArr [])]"
        and repr = "\<lambda>v. []" and coll = film_store and n = 5]
    by (simp add: populated_def query_similar_def film_store_def first_row_def)
qed


section \<open>The year check of \<open>hybrid_search\<close>\<close>

lemma split_from_nonempty: "split_from sep cur s \<noteq> []"
  by (induction s arbitrary: cur) simp_all

lemma split_from_none:
  "sep \<noteq> [] \<Longrightarrow> hd sep \<notin> set s \<Longrightarrow> split_from sep cur s = [rev cur @ s]"
proof (induction s arbitrary: cur)
  case Nil
  then show ?case by simp
next
  case (Cons c cs)
  from Cons.prems have "\<not> prefix sep (c # cs)"
    by (cases sep) auto
  with Cons show ?case by simp
qed

lemma split_from_skip:
  "sep \<noteq> [] \<Longrightarrow> hd sep \<notin> set p \<Longrightarrow>
   split_from sep cur (p @ s) = split_from sep (rev p @ cur) s"
proof (induction p arbitrary: cur)
  case Nil
  then show ?case by simp
next
  case (Cons c cs)
  from Cons.prems have "\<not> prefix sep (c # cs @ s)"
    by (cases sep) auto
  with Cons show ?case by simp
qed

lemma split_from_at:
  "sep \<noteq> [] \<Longrightarrow> split_from sep cur (sep @ r) = rev cur # split_from sep [] r"
  by (cases sep) simp_all

lemma split_from_cur:
  "split_from sep cur s = (rev cur @ hd (split_from sep [] s)) # tl (split_from sep [] s)"
proof (induction s arbitrary: cur)
  case Nil
  then show ?case by simp
next
  case (Cons c cs)
  show ?case
  proof (cases "sep \<noteq> [] \<and> prefix sep (c # cs)")
    case True
    then show ?thesis by simp
  next
    case False
    then have "split_from sep cur (c # cs) = split_from sep (c # cur) cs" by auto
    also have "\<dots> = (rev (c # cur) @ hd (split_from sep [] cs)) # tl (split_from sep [] cs)"
      by (rule Cons.IH)
    also have "split_from sep [] (c # cs) = split_from sep [c] cs" using False by auto
    then have "(rev (c # cur) @ hd (split_from sep [] cs)) # tl (split_from sep [] cs)
             = (rev cur @ hd (split_from sep [] (c # cs))) # tl (split_from sep [] (c # cs))"
      by (simp add: Cons.IH [of "[c]"])
    finally show ?thesis .
  qed
qed

lemma py_int_error: "py_int s = Inl e \<Longrightarrow> e = ValueError"
  by (auto simp: py_int_def py_nat_literal_def ebind_def Let_def split: list.splits if_splits)

lemma item_year_error: "item_year v = Inl e \<Longrightarrow> e = ValueError \<or> e = TypeError"
proof (cases v)
  case (MStr s)
  assume a: "item_year v = Inl e"
  show ?thesis
  proof (cases "str_in ''-'' s")
    case True
    have "py_index (py_split ''-'' s) 0 = Inr (hd (py_split ''-'' s))"
      using split_from_nonempty [of "''-''" "[]" s]
      by (simp add: py_index_def py_split_def hd_conv_nth)
    with a MStr True show ?thesis by (auto dest: py_int_error)
  next
    case False
    with a MStr show ?thesis by (auto dest: py_int_error)
  qed
qed simp_all

lemma bound_step_error: "bound_step mf opr P incl = Inl e \<Longrightarrow> e = ValueError"
  by (auto simp: bound_step_def Let_def ebind_def split: if_splits sum.splits dest: py_int_error)

lemma year_check_unparsable:
  assumes "unparsable_year m"
  shows "year_check mf m incl = Inr incl"
proof (cases "map_of m ''year''")
  case None
  then show ?thesis by (simp add: year_check_def meta_truthy_def)
next
  case (Some v)
  show ?thesis
  proof (cases "mtruthy v")
    case False
    with Some show ?thesis by (simp add: year_check_def meta_truthy_def)
  next
    case True
    with assms Some obtain e where e: "item_year v = Inl e"
      by (cases "item_year v") (auto simp: unparsable_year_def)
    from item_year_error [OF e] have "year_handler e incl = Inr incl"
      by (auto simp: year_handler_def)
    with Some e show ?thesis by (simp add: year_check_def)
  qed
qed

lemma year_check_total: "\<exists>b. year_check mf m incl = Inr b"
  by (auto simp: year_check_def year_handler_def split: sum.splits
      dest!: item_year_error bound_step_error)

lemma filtered_from_mem:
  "filtered_from mf i ms = Inr idxs \<Longrightarrow> j < length ms \<Longrightarrow> include_meta mf (ms ! j) = Inr True
   \<Longrightarrow> i + j \<in> set idxs"
proof (induction ms arbitrary: i j idxs)
  case Nil
  then show ?case by simp
next
  case (Cons m ms)
  from Cons.prems(1) obtain b rest where b: "include_meta mf m = Inr b"
    and r: "filtered_from mf (Suc i) ms = Inr rest" and i: "idxs = (if b then i # rest else rest)"
    by (auto simp: ebind_def split: sum.splits)
  show ?case
  proof (cases j)
    case 0
    with Cons.prems(3) b i show ?thesis by simp
  next
    case (Suc k)
    with Cons.prems have "Suc i + k \<in> set rest"
      by (intro Cons.IH [OF r]) simp_all
    with i Suc show ?thesis by simp
  qed
qed

lemma include_meta_unparsable:
  assumes "unparsable_year m"
  shows "include_meta mf m = genre_check mf m True"
  by (cases "genre_check mf m True") (simp_all add: include_meta_def year_check_unparsable [OF assms])

text \<open>
  Claim C10.  Let the year field of a candidate be unreadable: missing, empty, or such
  that the conversion raises (a leading segment that is no integer literal, or a value
  that is not a string).  Then the year block leaves \<open>include\<close> as it is, whatever the
  year bounds are, and raises nothing; so the candidate's verdict is the verdict of
  the genre block alone, and a candidate the genre block accepts is among the filtered
  indices.
\<close>

theorem unparsable_year_kept:
  assumes "unparsable_year m"
  shows "year_check mf m incl = Inr incl
       \<and> include_meta mf m = genre_check mf m True
       \<and> (filtered_from mf 0 ms = Inr idxs \<and> j < length ms \<and> ms ! j = m
            \<and> genre_check mf m True = Inr True \<longrightarrow> j \<in> set idxs)"
proof (intro conjI impI)
  show "year_check mf m incl = Inr incl"
    using assms by (rule year_check_unparsable)
  show g: "include_meta mf m = genre_check mf m True"
    using assms by (rule include_meta_unparsable)
  assume a: "filtered_from mf 0 ms = Inr idxs \<and> j < length ms \<and> ms ! j = m
            \<and> genre_check mf m True = Inr True"
  then have "include_meta mf (ms ! j) = Inr True" using g by simp
  with a have "0 + j \<in> set idxs" by (intro filtered_from_mem [of mf 0 ms idxs j]) simp_all
  then show "j \<in> set idxs" by simp
qed

lemma up_unparsable:
  "unparsable_year [(''title'', MStr ''Up''), (''year'', MStr ''unknown-2010'')]"
  by code_simp

lemma up_genre_check:
  "genre_check year_2000s [(''title'', MStr ''Up''), (''year'', MStr ''unknown-2010'')] True = Inr True"
  by code_simp

lemma year_2000s_filtered:
  "filtered_from year_2000s 0
     [[(''year'', MStr ''1999'')], [(''title'', MStr ''Up''), (''year'', MStr ''unknown-2010'')]]
   = Inr [1]"
  by code_simp

text \<open>
  Under the year range 2000 to 2010 a candidate of 1999 is dropped, and the candidate
  after it, whose year field starts with \<open>unknown\<close>, is kept.
\<close>

theorem unparsable_year_kept_witness:
  "include_meta year_2000s [(''title'', MStr ''Up''), (''year'', MStr ''unknown-2010'')] = Inr True
   \<and> filtered_from year_2000s 0
        [[(''year'', MStr ''1999'')], [(''title'', MStr ''Up''), (''year'', MStr ''unknown-2010'')]]
      = Inr [1]
   \<and> 1 \<in> set [1 :: nat]"
  using unparsable_year_kept [OF up_unparsable, of year_2000s True
      "[[(''year'', MStr ''1999'')], [(''title'', MStr ''Up''), (''year'', MStr ''unknown-2010'')]]"
      "[1]" 1]
    up_genre_check year_2000s_filtered
  by simp


text \<open>
  Which year fields are unreadable.  \<open>int\<close> refuses a text that holds, after its
  white space is dropped, a character that is no digit, sign or underscore.
\<close>

lemma set_dropWhile_keep: "c \<in> set s \<Longrightarrow> \<not> P c \<Longrightarrow> c \<in> set (dropWhile P s)"
  by (induction s) auto

lemma int_strip_keeps: "c \<in> set s \<Longrightarrow> \<not> int_space c \<Longrightarrow> c \<in> set (int_strip s)"
  by (simp add: int_strip_def set_dropWhile_keep)

lemma split_underscore_set:
  "(set cur \<union> set t) - {CHR ''_''} \<subseteq> set (concat (split_from ''_'' cur t))"
proof (induction t arbitrary: cur)
  case Nil
  then show ?case by auto
next
  case (Cons c cs)
  show ?case
  proof (cases "c = CHR ''_''")
    case True
    with Cons [of "[]"] show ?thesis by auto
  next
    case False
    with Cons [of "c # cur"] show ?thesis by auto
  qed
qed

lemma py_nat_literal_non_numeric:
  assumes "c \<in> set t" and "\<not> is_digit c" and "c \<noteq> CHR ''_''"
  shows "py_nat_literal t = Inl ValueError"
proof -
  from assms(1,3) split_underscore_set [of "[]" t] have "c \<in> set (concat (py_split ''_'' t))"
    by (auto simp: py_split_def)
  then obtain g where "g \<in> set (py_split ''_'' t)" and "c \<in> set g" by auto
  with assms(2) have "\<not> list_all (\<lambda>g. g \<noteq> [] \<and> list_all is_digit g) (py_split ''_'' t)"
    by (auto simp: list_all_iff)
  then show ?thesis by (simp add: py_nat_literal_def Let_def)
qed

lemma py_int_non_numeric:
  assumes "c \<in> set s" and "\<not> is_digit c" and "\<not> int_space c"
    and "c \<noteq> CHR ''_''" and "c \<noteq> CHR ''-''" and "c \<noteq> CHR ''+''"
  shows "py_int s = Inl ValueError"
proof (cases "int_strip s")
  case Nil
  then show ?thesis by (simp add: py_int_def)
next
  case (Cons c0 cs)
  from assms(1,3) have m: "c \<in> set (int_strip s)" by (rule int_strip_keeps)
  show ?thesis
  proof (cases "c0 = CHR ''-'' \<or> c0 = CHR ''+''")
    case True
    with m Cons assms(5,6) have "c \<in> set cs" by auto
    then have "py_nat_literal cs = Inl ValueError"
      using assms(2,4) by (rule py_nat_literal_non_numeric)
    with True Cons show ?thesis by (auto simp: py_int_def)
  next
    case False
    from m Cons have "c \<in> set (c0 # cs)" by simp
    then have "py_nat_literal (c0 # cs) = Inl ValueError"
      using assms(2,4) by (rule py_nat_literal_non_numeric)
    with False Cons show ?thesis by (simp add: py_int_def)
  qed
qed

lemma str_in_hyphen: "str_in ''-'' s \<longleftrightarrow> CHR ''-'' \<in> set s"
proof
  assume "str_in ''-'' s"
  then show "CHR ''-'' \<in> set s" by (auto simp: str_in_def sublist_def)
next
  assume "CHR ''-'' \<in> set s"
  then obtain a b where "s = a @ CHR ''-'' # b" by (auto simp: in_set_conv_decomp)
  then have "s = a @ ''-'' @ b" by simp
  then show "str_in ''-'' s" unfolding str_in_def sublist_def by blast
qed

text \<open>The year of a string field is \<open>int\<close> of its leading segment, the text before the first hyphen.\<close>

lemma item_year_leading: "item_year (MStr s) = py_int (hd (py_split ''-'' s))"
proof (cases "str_in ''-'' s")
  case True
  have "py_split ''-'' s \<noteq> []" by (simp add: py_split_def split_from_nonempty)
  then have "py_index (py_split ''-'' s) 0 = Inr (hd (py_split ''-'' s))"
    by (cases "py_split ''-'' s") (simp_all add: py_index_def)
  with True show ?thesis by simp
next
  case False
  then have "CHR ''-'' \<notin> set s" by (simp add: str_in_hyphen)
  then have "py_split ''-'' s = [s]" by (simp add: py_split_def split_from_none)
  with False show ?thesis by simp
qed

text \<open>
  A year field whose leading segment holds a character that is no digit, sign,
  underscore or white space of \<open>int\<close> is unreadable; so is a missing and an empty one.
\<close>

lemma non_numeric_year_unparsable:
  assumes "map_of m ''year'' = Some (MStr s)" and "c \<in> set (hd (py_split ''-'' s))"
    and "\<not> is_digit c" and "\<not> int_space c"
    and "c \<noteq> CHR ''_''" and "c \<noteq> CHR ''-''" and "c \<noteq> CHR ''+''"
  shows "unparsable_year m"
  using assms(1) py_int_non_numeric [OF assms(2-7)]
  by (simp add: unparsable_year_def item_year_leading del: item_year.simps)

lemma missing_year_unparsable:
  "map_of m ''year'' = None \<Longrightarrow> unparsable_year m"
  "map_of m ''year'' = Some (MStr []) \<Longrightarrow> unparsable_year m"
  "map_of m ''year'' = Some (MInt k) \<Longrightarrow> unparsable_year m"
  by (simp_all add: unparsable_year_def)


section \<open>Year bounds: from the intent to the verdict on a candidate\<close>

lemma digit_char: "d < 10 \<Longrightarrow> is_digit (char_of (48 + d)) \<and> digit_val (char_of (48 + d)) = d"
  by (simp add: is_digit_def digit_val_def)

lemma nat_digits_all: "list_all is_digit (nat_digits k) \<and> nat_digits k \<noteq> []"
proof (induction k rule: nat_digits.induct)
  case (1 k)
  show ?case
  proof (cases "k < 10")
    case True
    then show ?thesis by (simp add: nat_digits.simps [of k] digit_char)
  next
    case False
    have "k mod 10 < 10" by simp
    with False 1 show ?thesis by (simp add: nat_digits.simps [of k] digit_char)
  qed
qed

lemma digits_val_snoc: "digits_val (xs @ [c]) = 10 * digits_val xs + digit_val c"
  by (simp add: digits_val_def)

lemma digits_val_nat_digits: "digits_val (nat_digits k) = k"
proof (induction k rule: nat_digits.induct)
  case (1 k)
  show ?case
  proof (cases "k < 10")
    case True
    then show ?thesis by (simp add: nat_digits.simps [of k] digit_char digits_val_def)
  next
    case False
    have "k mod 10 < 10" by simp
    with False 1 show ?thesis by (simp add: nat_digits.simps [of k] digits_val_snoc digit_char)
  qed
qed

lemma digit_plain:
  "is_digit c \<Longrightarrow> \<not> int_space c \<and> c \<noteq> CHR ''_'' \<and> c \<noteq> CHR ''-'' \<and> c \<noteq> CHR ''+''"
  by (auto simp: is_digit_def int_space_def Let_def)

lemma int_strip_id:
  assumes "s \<noteq> []" and "\<not> int_space (hd s)" and "\<not> int_space (last s)"
  shows "int_strip s = s"
proof -
  from assms have 1: "dropWhile int_space s = s" by (cases s) simp_all
  from assms have "\<not> int_space (hd (rev s))" by (simp add: hd_rev)
  with assms(1) have 2: "dropWhile int_space (rev s) = rev s" by (cases "rev s") simp_all
  show ?thesis by (simp add: int_strip_def 1 2)
qed

lemma py_nat_literal_digits:
  assumes "list_all is_digit ds" and "ds \<noteq> []" and "length ds \<le> max_str_digits"
  shows "py_nat_literal ds = Inr (digits_val ds)"
proof -
  from assms(1) have "CHR ''_'' \<notin> set ds"
    by (auto simp: list_all_iff dest: digit_plain)
  then have "py_split ''_'' ds = [ds]"
    by (simp add: py_split_def split_from_none)
  with assms show ?thesis by (simp add: py_nat_literal_def)
qed

lemma py_int_digits:
  assumes "list_all is_digit ds" and "ds \<noteq> []" and "length ds \<le> max_str_digits"
  shows "py_int ds = Inr (int (digits_val ds))"
    and "py_int (CHR ''-'' # ds) = Inr (- int (digits_val ds))"
proof -
  from assms have h: "is_digit (hd ds)" and l: "is_digit (last ds)"
    by (auto simp: list_all_iff)
  from assms h l have s: "int_strip ds = ds"
    by (intro int_strip_id) (auto dest: digit_plain)
  from assms obtain c cs where ds: "ds = c # cs" by (cases ds) auto
  with h have c: "c \<noteq> CHR ''-''" "c \<noteq> CHR ''+''" by (auto dest: digit_plain)
  have n: "py_nat_literal (c # cs) = Inr (digits_val (c # cs))"
    using py_nat_literal_digits [OF assms] by (simp add: ds)
  show "py_int ds = Inr (int (digits_val ds))"
    unfolding py_int_def s unfolding ds using c by (simp add: n)
  have m: "int_strip (CHR ''-'' # ds) = CHR ''-'' # ds"
    using assms l by (intro int_strip_id) (auto simp: int_space_def dest: digit_plain)
  show "py_int (CHR ''-'' # ds) = Inr (- int (digits_val ds))"
    unfolding py_int_def m by (simp add: py_nat_literal_digits [OF assms])
qed

text \<open>The text that \<open>str\<close> gives for an integer is read back by \<open>int\<close> as that integer.\<close>

lemma py_int_str:
  assumes "py_str_int i = Inr s"
  shows "py_int s = Inr i" and "s \<noteq> []"
proof -
  let ?ds = "nat_digits (nat \<bar>i\<bar>)"
  from assms have len: "length ?ds \<le> max_str_digits"
    and s: "s = (if i < 0 then CHR ''-'' # ?ds else ?ds)"
    by (auto simp: py_str_int_def Let_def split: if_splits)
  from nat_digits_all [of "nat \<bar>i\<bar>"] have d: "list_all is_digit ?ds" "?ds \<noteq> []"
    by simp_all
  show "s \<noteq> []"
  proof (cases "i < 0")
    case True
    with s show ?thesis by simp
  next
    case False
    with s have e: "s = ?ds" by simp
    show ?thesis unfolding e by (rule d(2))
  qed
  show "py_int s = Inr i"
  proof (cases "i < 0")
    case True
    with s py_int_digits(2) [OF d len] show ?thesis
      by (simp add: digits_val_nat_digits)
  next
    case False
    with s py_int_digits(1) [OF d len] show ?thesis
      by (simp add: digits_val_nat_digits)
  qed
qed

text \<open>A literal of more than 4300 digits is refused, by \<open>int\<close> and by \<open>str\<close>.\<close>

lemma py_int_too_long:
  assumes "list_all is_digit ds" and "length ds > max_str_digits"
  shows "py_int ds = Inl ValueError"
proof -
  from assms(2) have ne: "ds \<noteq> []" by auto
  with assms(1) have h: "is_digit (hd ds)" and l: "is_digit (last ds)"
    by (auto simp: list_all_iff)
  from ne h l have s: "int_strip ds = ds"
    by (intro int_strip_id) (auto dest: digit_plain)
  from ne obtain c cs where ds: "ds = c # cs" by (cases ds) auto
  with h have c: "c \<noteq> CHR ''-''" "c \<noteq> CHR ''+''" by (auto dest: digit_plain)
  from assms(1) have "CHR ''_'' \<notin> set ds"
    by (auto simp: list_all_iff dest: digit_plain)
  then have "py_split ''_'' ds = [ds]"
    by (simp add: py_split_def split_from_none)
  with assms(2) have "py_nat_literal ds = Inl ValueError"
    by (simp add: py_nat_literal_def)
  then have n: "py_nat_literal (c # cs) = Inl ValueError" by (simp add: ds)
  show ?thesis
    unfolding py_int_def s unfolding ds using c by (simp add: n)
qed

lemma digit_limit:
  "py_int (replicate 4300 (CHR ''1'')) = Inr (int (digits_val (replicate 4300 (CHR ''1''))))"
  "py_int (replicate 4301 (CHR ''1'')) = Inl ValueError"
proof -
  have d: "is_digit (CHR ''1'')" by (simp add: is_digit_def)
  show "py_int (replicate 4300 (CHR ''1'')) = Inr (int (digits_val (replicate 4300 (CHR ''1''))))"
    by (rule py_int_digits(1)) (simp_all add: list_all_iff d max_str_digits_def)
  show "py_int (replicate 4301 (CHR ''1'')) = Inl ValueError"
    by (rule py_int_too_long) (simp_all add: list_all_iff d max_str_digits_def)
qed

lemma str_too_long:
  "length (nat_digits (nat \<bar>i\<bar>)) > 4300 \<Longrightarrow> py_str_int i = Inl ValueError"
  by (simp add: py_str_int_def max_str_digits_def)

text \<open>
  \<open>int\<close> on literals: white space at both ends, one sign, single underscores between
  digits; the separators \<open>0x1C\<close> to \<open>0x1F\<close> are no white space here.
\<close>

lemma py_int_literals:
  "py_int (map char_of [9, 10, 11, 12, 13, 32, 133, 160 :: nat] @ ''+1_0''
      @ map char_of [160, 133, 32, 13, 12, 11, 10, 9 :: nat]) = Inr 10"
  "py_int ''-0'' = Inr 0" "py_int ''0012'' = Inr 12" "py_int ''-1_999'' = Inr (- 1999)"
  "py_int [CHR 0x1C, CHR ''1''] = Inl ValueError" "py_int [CHR ''1'', CHR 0x1D] = Inl ValueError"
  "py_int [CHR 0x1E, CHR ''1''] = Inl ValueError" "py_int [CHR ''1'', CHR 0x1F] = Inl ValueError"
  "py_int ''1__0'' = Inl ValueError" "py_int ''_1'' = Inl ValueError"
  "py_int ''1_'' = Inl ValueError" "py_int ''+-1'' = Inl ValueError"
  "py_int ''- 1'' = Inl ValueError" "py_int ''1 0'' = Inl ValueError"
  "py_int ''+'' = Inl ValueError" "py_int '' '' = Inl ValueError"
  "py_int ''2000.0'' = Inl ValueError" "py_int ''12a'' = Inl ValueError"
  by code_simp+

lemma py_str_int_examples:
  "py_str_int 0 = Inr ''0''" "py_str_int (- 45) = Inr ''-45''" "py_str_int 1999 = Inr ''1999''"
  by code_simp+

lemma py_int_empty: "py_int [] = Inl ValueError"
  by (simp add: py_int_def int_strip_def)

lemma item_year_truthy: "item_year v = Inr y \<Longrightarrow> mtruthy v"
proof (cases v)
  case (MStr s)
  assume "item_year v = Inr y"
  with MStr show ?thesis
    by (cases "s = []") (simp_all add: str_in_def py_int_empty)
qed simp_all

lemma item_year_range:
  assumes "CHR ''-'' \<notin> set a"
  shows "item_year (MStr (a @ ''-'' @ b)) = py_int a"
proof -
  have "str_in ''-'' (a @ ''-'' @ b)"
    unfolding str_in_def sublist_def by blast
  moreover have "py_split ''-'' (a @ ''-'' @ b) = a # split_from ''-'' [] b"
    using assms split_from_skip [of "''-''" a "[]" "''-'' @ b"] split_from_at [of "''-''" "rev a" b]
    by (simp add: py_split_def)
  ultimately show ?thesis by (simp add: py_index_def)
qed

lemma compile_year_only:
  assumes "map_of kv ''filters'' = Some (JObj f)"
    and "list_all (\<lambda>k. \<not> populated f k) [''genres'', ''directors'', ''actors'']"
  shows "map_sum id filters (construct_vector_query repr (JObj kv))
       = ebind (add_year repr (JObj f) []) (\<lambda>f4. Inr (if f4 \<noteq> [] then Some f4 else None))"
proof -
  have "dict_get_default (JObj kv) ''filters'' (JObj []) = Inr (JObj f)"
    using assms(1) by simp
  from construct_filters_only [OF this] assms(2) show ?thesis
    by (cases "add_year repr (JObj f) []") (simp_all add: add_contains_unpopulated)
qed

lemma add_year_both:
  assumes "map_of f ''year_range'' = Some (JArr [a, b])" and "truthy a" and "truthy b"
    and "py_str repr a = Inr L" and "py_str repr b = Inr H"
  shows "add_year repr (JObj f) [] = Inr [(''year'', [(''$gte'', L), (''$lte'', H)])]"
  using assms by (simp add: add_year_obj [of repr f]) (simp add: add_year_def both_bounds_def py_index_def)

lemma add_year_lower:
  assumes "map_of f ''year_range'' = Some (JArr [a, b])" and "truthy a" and "\<not> truthy b"
    and "py_str repr a = Inr L"
  shows "add_year repr (JObj f) [] = Inr [(''year'', [(''$gte'', L)])]"
  using assms by (simp add: add_year_obj [of repr f]) (simp add: add_year_def both_bounds_def py_index_def)

lemma add_year_upper:
  assumes "map_of f ''year_range'' = Some (JArr [a, b])" and "\<not> truthy a" and "truthy b"
    and "py_str repr b = Inr H"
  shows "add_year repr (JObj f) [] = Inr [(''year'', [(''$lte'', H)])]"
  using assms by (simp add: add_year_obj [of repr f]) (simp add: add_year_def both_bounds_def py_index_def)

lemma genre_check_no_filter: "\<not> filter_on mf ''genres'' \<Longrightarrow> genre_check mf m incl = Inr incl"
  by (simp add: genre_check_def)

lemma year_check_parsed:
  assumes "map_of m ''year'' = Some v" and "item_year v = Inr y" and "filter_on mf ''year''"
  shows "year_check mf m incl =
     (case bound_step mf ''$gte'' (\<lambda>lo. y < lo) incl of
        Inl e \<Rightarrow> year_handler e incl
      | Inr incl1 \<Rightarrow>
          (case bound_step mf ''$lte'' (\<lambda>hi. y > hi) incl1 of
             Inl e \<Rightarrow> year_handler e incl1
           | Inr incl2 \<Rightarrow> Inr incl2))"
  using assms item_year_truthy [OF assms(2)] by (simp add: year_check_def meta_truthy_def)

lemma bound_step_str:
  assumes "map_of mf ''year'' = Some ops" and "map_of ops opr = Some B" and "py_str_int k = Inr B"
  shows "bound_step mf opr P i = Inr (if P k then False else i)"
  using assms py_int_str [OF assms(3)] by (simp add: bound_step_def filter_op_def)

lemma bound_step_absent:
  assumes "map_of mf ''year'' = Some ops" and "map_of ops opr = None"
  shows "bound_step mf opr P i = Inr i"
  using assms by (simp add: bound_step_def filter_op_def)

lemma include_year_both:
  assumes "map_of m ''year'' = Some v" and "item_year v = Inr y"
    and "py_str_int lo = Inr L" and "py_str_int hi = Inr H"
  shows "include_meta [(''year'', [(''$gte'', L), (''$lte'', H)])] m = Inr (lo \<le> y \<and> y \<le> hi)"
proof -
  let ?F = "[(''year'', [(''$gte'', L), (''$lte'', H)])]"
  have f: "filter_on ?F ''year''" "\<not> filter_on ?F ''genres''" by (simp_all add: filter_on_def)
  have g: "bound_step ?F ''$gte'' P i = Inr (if P lo then False else i)" for P i
    using bound_step_str [of ?F "[(''$gte'', L), (''$lte'', H)]" "''$gte''" L lo P i] assms(3)
    by simp
  have l: "bound_step ?F ''$lte'' P i = Inr (if P hi then False else i)" for P i
    using bound_step_str [of ?F "[(''$gte'', L), (''$lte'', H)]" "''$lte''" H hi P i] assms(4)
    by simp
  show ?thesis
    by (auto simp: include_meta_def genre_check_no_filter [OF f(2)] year_check_parsed [OF assms(1,2) f(1)] g l)
qed

lemma include_year_lower:
  assumes "map_of m ''year'' = Some v" and "item_year v = Inr y" and "py_str_int lo = Inr L"
  shows "include_meta [(''year'', [(''$gte'', L)])] m = Inr (lo \<le> y)"
proof -
  let ?F = "[(''year'', [(''$gte'', L)])]"
  have f: "filter_on ?F ''year''" "\<not> filter_on ?F ''genres''" by (simp_all add: filter_on_def)
  have g: "bound_step ?F ''$gte'' P i = Inr (if P lo then False else i)" for P i
    using bound_step_str [of ?F "[(''$gte'', L)]" "''$gte''" L lo P i] assms(3) by simp
  have l: "bound_step ?F ''$lte'' P i = Inr i" for P i
    using bound_step_absent [of ?F "[(''$gte'', L)]" "''$lte''" P i] by simp
  show ?thesis
    by (auto simp: include_meta_def genre_check_no_filter [OF f(2)] year_check_parsed [OF assms(1,2) f(1)] g l)
qed

lemma include_year_upper:
  assumes "map_of m ''year'' = Some v" and "item_year v = Inr y" and "py_str_int hi = Inr H"
  shows "include_meta [(''year'', [(''$lte'', H)])] m = Inr (y \<le> hi)"
proof -
  let ?F = "[(''year'', [(''$lte'', H)])]"
  have f: "filter_on ?F ''year''" "\<not> filter_on ?F ''genres''" by (simp_all add: filter_on_def)
  have g: "bound_step ?F ''$gte'' P i = Inr i" for P i
    using bound_step_absent [of ?F "[(''$lte'', H)]" "''$gte''" P i] by simp
  have l: "bound_step ?F ''$lte'' P i = Inr (if P hi then False else i)" for P i
    using bound_step_str [of ?F "[(''$lte'', H)]" "''$lte''" H hi P i] assms(3) by simp
  show ?thesis
    by (auto simp: include_meta_def genre_check_no_filter [OF f(2)] year_check_parsed [OF assms(1,2) f(1)] g l)
qed

lemma str_2000: "py_str_int 2000 = Inr ''2000''" and str_2010: "py_str_int 2010 = Inr ''2010''"
  by code_simp+

lemma sample_years:
  "item_year (MStr ''1999'') = Inr 1999" "item_year (MStr ''2005'') = Inr 2005"
  "item_year (MStr ''2010-2012'') = Inr 2010" "item_year (MStr ''2012-2015'') = Inr 2012"
  by code_simp+

text \<open>
  A bound of more than 4300 digits makes \<open>str\<close>, and with it the compilation, raise.
\<close>

lemma year_bound_too_long:
  assumes "map_of kv ''filters'' = Some (JObj f)"
    and "map_of f ''year_range'' = Some (JArr [JNum lo, JNum hi])"
    and "lo \<noteq> 0" and "hi \<noteq> 0"
    and "py_str_int lo = Inl e \<or> py_str_int hi = Inl e"
  shows "\<exists>e'. add_year repr (JObj f) fs = Inl e'"
proof (cases "py_str_int lo")
  case (Inl a)
  with assms show ?thesis
    by (simp add: add_year_obj [of repr f]) (simp add: add_year_def both_bounds_def py_index_def)
next
  case (Inr L)
  with assms have "py_str_int hi = Inl e" by simp
  with Inr assms show ?thesis
    by (simp add: add_year_obj [of repr f]) (simp add: add_year_def both_bounds_def py_index_def)
qed

text \<open>
  The white space of \<open>int\<close> is not that of \<open>str.strip\<close>: a year that starts with the
  separator \<open>0x1C\<close> is not read, so the candidate stays; a year followed by a no-break
  space is read.
\<close>

lemma year_white_space:
  "item_year (MStr (CHR 0x1C # ''1999'')) = Inl ValueError"
  "include_meta year_2000s [(''year'', MStr (CHR 0x1C # ''1999''))] = Inr True"
  "item_year (MStr (''1999'' @ [CHR 0xA0])) = Inr 1999"
  "include_meta year_2000s [(''year'', MStr (''1999'' @ [CHR 0xA0]))] = Inr False"
  by code_simp+

text \<open>
  Claim C5.  Let the intent's filters populate no genre, director or actor field, let
  the candidate's year field be read as the integer \<open>y\<close> by \<open>item_year\<close>, and let
  \<open>str\<close> give the texts \<open>L\<close> and \<open>H\<close> for the non-zero integers \<open>lo\<close> and \<open>hi\<close>.
  For the year range \<open>[lo, hi]\<close> the compiled filter set holds the two bounds and the
  candidate is included exactly when \<open>lo \<le> y \<le> hi\<close>; for \<open>[lo, null]\<close> only the
  lower bound is compiled and the test is \<open>lo \<le> y\<close>; for \<open>[null, hi]\<close> only the
  upper bound, and the test is \<open>y \<le> hi\<close>.  A year field \<open>a-b\<close>, where \<open>a\<close> has no
  hyphen, is read as \<open>int(a)\<close>, its start year.
\<close>

theorem year_range_law:
  assumes "map_of kv ''filters'' = Some (JObj f)"
    and "list_all (\<lambda>k. \<not> populated f k) [''genres'', ''directors'', ''actors'']"
    and "map_of m ''year'' = Some v" and "item_year v = Inr y"
    and "lo \<noteq> 0" and "hi \<noteq> 0"
    and "py_str_int lo = Inr L" and "py_str_int hi = Inr H"
  shows "(map_of f ''year_range'' = Some (JArr [JNum lo, JNum hi]) \<longrightarrow>
            map_sum id filters (construct_vector_query repr (JObj kv))
              = Inr (Some [(''year'', [(''$gte'', L), (''$lte'', H)])])
            \<and> include_meta [(''year'', [(''$gte'', L), (''$lte'', H)])] m
              = Inr (lo \<le> y \<and> y \<le> hi))
       \<and> (map_of f ''year_range'' = Some (JArr [JNum lo, JNull]) \<longrightarrow>
            map_sum id filters (construct_vector_query repr (JObj kv))
              = Inr (Some [(''year'', [(''$gte'', L)])])
            \<and> include_meta [(''year'', [(''$gte'', L)])] m = Inr (lo \<le> y))
       \<and> (map_of f ''year_range'' = Some (JArr [JNull, JNum hi]) \<longrightarrow>
            map_sum id filters (construct_vector_query repr (JObj kv))
              = Inr (Some [(''year'', [(''$lte'', H)])])
            \<and> include_meta [(''year'', [(''$lte'', H)])] m = Inr (y \<le> hi))
       \<and> (CHR ''-'' \<notin> set a \<longrightarrow> item_year (MStr (a @ ''-'' @ b)) = py_int a)"
proof (intro conjI impI)
  assume "map_of f ''year_range'' = Some (JArr [JNum lo, JNum hi])"
  then have "add_year repr (JObj f) [] = Inr [(''year'', [(''$gte'', L), (''$lte'', H)])]"
    using assms(5-8) add_year_both [of f "JNum lo" "JNum hi" repr L H] by simp
  then show "map_sum id filters (construct_vector_query repr (JObj kv))
              = Inr (Some [(''year'', [(''$gte'', L), (''$lte'', H)])])"
    by (simp add: compile_year_only [OF assms(1,2)])
next
  assume "map_of f ''year_range'' = Some (JArr [JNum lo, JNull])"
  then have "add_year repr (JObj f) [] = Inr [(''year'', [(''$gte'', L)])]"
    using assms(5,7) add_year_lower [of f "JNum lo" JNull repr L] by simp
  then show "map_sum id filters (construct_vector_query repr (JObj kv))
              = Inr (Some [(''year'', [(''$gte'', L)])])"
    by (simp add: compile_year_only [OF assms(1,2)])
next
  assume "map_of f ''year_range'' = Some (JArr [JNull, JNum hi])"
  then have "add_year repr (JObj f) [] = Inr [(''year'', [(''$lte'', H)])]"
    using assms(6,8) add_year_upper [of f JNull "JNum hi" repr H] by simp
  then show "map_sum id filters (construct_vector_query repr (JObj kv))
              = Inr (Some [(''year'', [(''$lte'', H)])])"
    by (simp add: compile_year_only [OF assms(1,2)])
next
  assume "CHR ''-'' \<notin> set a"
  then show "item_year (MStr (a @ ''-'' @ b)) = py_int a" by (rule item_year_range)
qed (rule include_year_both [OF assms(3,4,7,8)] include_year_lower [OF assms(3,4,7)]
       include_year_upper [OF assms(3,4,8)])+

text \<open>
  The range 2000 to 2010: a candidate of 1999 is excluded, one of 2005 included, one of
  2010-2012 included, one of 2012-2015 excluded.
\<close>

theorem year_range_law_witness:
  "map_sum id filters (construct_vector_query (\<lambda>v. []) year_range_intent) = Inr (Some year_2000s)
   \<and> include_meta year_2000s [(''year'', MStr ''1999'')] = Inr False
   \<and> include_meta year_2000s [(''year'', MStr ''2005'')] = Inr True
   \<and> include_meta year_2000s [(''year'', MStr ''2010-2012'')] = Inr True
   \<and> include_meta year_2000s [(''year'', MStr ''2012-2015'')] = Inr False"
proof -
  have f: "map_of [(''type'', JStr ''search''),
           (''filters'', JObj [(''year_range'', JArr [JNum 2000, JNum 2010])]),
           (''search_query'', JStr ''films'')] ''filters''
        = Some (JObj [(''year_range'', JArr [JNum 2000, JNum 2010])])"
    by simp
  have u: "list_all (\<lambda>k. \<not> populated [(''year_range'', JArr [JNum 2000, JNum 2010])] k)
             [''genres'', ''directors'', ''actors'']"
    by (simp add: populated_def)
  have y: "map_of [(''year'', v)] ''year'' = Some v" for v :: mval by simp
  have n: "(2000 :: int) \<noteq> 0" "(2010 :: int) \<noteq> 0" by simp_all
  note law = year_range_law [OF f u y _ n str_2000 str_2010, where repr = "\<lambda>v. []"]
  show ?thesis
    using law [OF sample_years(1)] law [OF sample_years(2)] law [OF sample_years(3)]
      law [OF sample_years(4)]
    by (simp add: year_2000s_def year_range_intent_def)
qed


section \<open>The intent parser\<close>

lemma py_index_1: "xs \<noteq> [] \<Longrightarrow> py_index (x # xs) (Suc 0) = Inr (hd xs)"
  by (cases xs) (simp_all add: py_index_def)

lemma py_index_0: "py_index (x # xs) 0 = Inr x"
  by (simp add: py_index_def)

lemma fence_not_empty: "code_fence \<noteq> []" "hd code_fence = CHR 0x60"
  "code_fence @ ''json'' \<noteq> []" "hd (code_fence @ ''json'') = CHR 0x60"
  by (simp_all add: code_fence_def)

text \<open>The first piece cut from a text without backquote, followed by a closing fence.\<close>

lemma first_piece_plain:
  assumes "CHR 0x60 \<notin> set body"
  shows "py_index (py_split code_fence body) 0 = Inr body"
  using assms by (simp add: py_split_def split_from_none fence_not_empty py_index_0)

lemma first_piece_fenced:
  assumes "CHR 0x60 \<notin> set body"
  shows "py_index (py_split code_fence (body @ code_fence @ post)) 0 = Inr body"
proof -
  have "split_from code_fence [] (body @ code_fence @ post)
          = split_from code_fence (rev body) (code_fence @ post)"
    using assms by (simp add: split_from_skip fence_not_empty)
  also have "\<dots> = body # split_from code_fence [] post"
    by (simp add: split_from_at fence_not_empty)
  finally show ?thesis by (simp add: py_split_def py_index_0)
qed

text \<open>What follows the opening \<open>json\<close> fence, up to the next one.\<close>

lemma after_json_fence:
  assumes "CHR 0x60 \<notin> set body" and "CHR 0x60 \<notin> set post"
  shows "hd (split_from (code_fence @ ''json'') [] (body @ code_fence @ post)) = body
       \<or> hd (split_from (code_fence @ ''json'') [] (body @ code_fence @ post)) = body @ code_fence @ post"
proof -
  let ?sep = "code_fence @ ''json''"
  have s: "split_from ?sep [] (body @ code_fence @ post) = split_from ?sep (rev body) (code_fence @ post)"
    using assms(1) by (simp add: split_from_skip fence_not_empty)
  show ?thesis
  proof (cases "prefix ''json'' post")
    case True
    then obtain p where "post = ''json'' @ p" by (auto simp: prefix_def)
    then have "code_fence @ post = ?sep @ p" by simp
    then have "split_from ?sep (rev body) (code_fence @ post) = body # split_from ?sep [] p"
      by (simp only: split_from_at [OF fence_not_empty(3)] rev_rev_ident)
    with s show ?thesis by simp
  next
    case False
    let ?q = "CHR 0x60"
    have st: "\<not> prefix sep (c # cs) \<Longrightarrow> split_from sep cur (c # cs) = split_from sep (c # cur) cs"
      for sep cur c cs by simp
    have p1: "\<not> prefix ?sep (?q # ?q # ?q # post)"
      using False by (simp add: code_fence_def)
    have p2: "\<not> prefix ?sep (?q # ?q # post)"
      using assms(2) by (cases post) (auto simp: code_fence_def)
    have p3: "\<not> prefix ?sep (?q # post)"
      using assms(2) by (cases post) (auto simp: code_fence_def)
    have "split_from ?sep (rev body) (code_fence @ post)
            = split_from ?sep (rev body) (?q # ?q # ?q # post)"
      by (simp add: code_fence_def)
    also have "\<dots> = split_from ?sep (?q # ?q # ?q # rev body) post"
      by (simp only: st [OF p1] st [OF p2] st [OF p3])
    also have "\<dots> = [rev (?q # ?q # ?q # rev body) @ post]"
      using assms(2) by (intro split_from_none) (simp_all add: fence_not_empty)
    also have "\<dots> = [body @ code_fence @ post]"
      by (simp add: code_fence_def)
    finally have "split_from ?sep (rev body) (code_fence @ post) = [body @ code_fence @ post]" .
    with s show ?thesis by simp
  qed
qed

lemma between_json_fences:
  assumes "CHR 0x60 \<notin> set pre" and "CHR 0x60 \<notin> set body" and "CHR 0x60 \<notin> set post"
  shows "between_fences (code_fence @ ''json'')
           (pre @ code_fence @ ''json'' @ body @ code_fence @ post) = Inr (py_strip body)"
proof -
  let ?sep = "code_fence @ ''json''"
  let ?r = "body @ code_fence @ post"
  have "split_from ?sep [] (pre @ ?sep @ ?r) = split_from ?sep (rev pre) (?sep @ ?r)"
    using assms(1) split_from_skip [of ?sep pre "[]" "?sep @ ?r"] by (simp add: fence_not_empty)
  also have "\<dots> = pre # split_from ?sep [] ?r"
    by (simp only: split_from_at [OF fence_not_empty(3)] rev_rev_ident)
  finally have 1: "py_index (py_split ?sep (pre @ ?sep @ ?r)) 1 = Inr (hd (split_from ?sep [] ?r))"
    by (simp add: py_split_def py_index_1 split_from_nonempty)
  have 2: "py_index (py_split code_fence (hd (split_from ?sep [] ?r))) 0 = Inr body"
    using after_json_fence [OF assms(2,3)] first_piece_plain [OF assms(2)]
      first_piece_fenced [OF assms(2)] by auto
  have "pre @ code_fence @ ''json'' @ body @ code_fence @ post = pre @ ?sep @ ?r" by simp
  then show ?thesis
    unfolding between_fences_def by (simp only: 1 2 ebind_Inr)
qed

lemma between_plain_fences:
  assumes "CHR 0x60 \<notin> set pre" and "CHR 0x60 \<notin> set body"
  shows "between_fences code_fence (pre @ code_fence @ body @ code_fence @ post) = Inr (py_strip body)"
proof -
  let ?r = "body @ code_fence @ post"
  have "split_from code_fence [] (pre @ code_fence @ ?r) = split_from code_fence (rev pre) (code_fence @ ?r)"
    using assms(1) split_from_skip [of code_fence pre "[]" "code_fence @ ?r"]
    by (simp add: fence_not_empty)
  also have "\<dots> = pre # split_from code_fence [] ?r"
    by (simp only: split_from_at [OF fence_not_empty(1)] rev_rev_ident)
  also have "split_from code_fence [] ?r = split_from code_fence (rev body) (code_fence @ post)"
    using assms(2) split_from_skip [of code_fence body "[]" "code_fence @ post"]
    by (simp add: fence_not_empty)
  also have "\<dots> = body # split_from code_fence [] post"
    by (simp only: split_from_at [OF fence_not_empty(1)] rev_rev_ident)
  finally have 1: "py_index (py_split code_fence (pre @ code_fence @ ?r)) 1 = Inr body"
    by (simp add: py_split_def py_index_def)
  show ?thesis
    unfolding between_fences_def by (simp only: 1 first_piece_plain [OF assms(2)] ebind_Inr)
qed

lemma strip_fence_json:
  assumes "CHR 0x60 \<notin> set pre" and "CHR 0x60 \<notin> set body" and "CHR 0x60 \<notin> set post"
  shows "strip_fence (pre @ code_fence @ ''json'' @ body @ code_fence @ post) = Inr (py_strip body)"
proof -
  have "str_in (code_fence @ ''json'') (pre @ code_fence @ ''json'' @ body @ code_fence @ post)"
    unfolding str_in_def sublist_def by (intro exI [of _ pre] exI [of _ "body @ code_fence @ post"]) simp
  then show ?thesis
    unfolding strip_fence_def by (simp only: if_True between_json_fences [OF assms])
qed

lemma strip_fence_plain:
  assumes "CHR 0x60 \<notin> set pre" and "CHR 0x60 \<notin> set body"
    and "\<not> str_in (code_fence @ ''json'') (pre @ code_fence @ body @ code_fence @ post)"
  shows "strip_fence (pre @ code_fence @ body @ code_fence @ post) = Inr (py_strip body)"
proof -
  have "str_in code_fence (pre @ code_fence @ body @ code_fence @ post)"
    unfolding str_in_def sublist_def by (intro exI [of _ pre] exI [of _ "body @ code_fence @ post"]) simp
  then show ?thesis
    unfolding strip_fence_def using assms(3)
    by (simp only: if_True if_False between_plain_fences [OF assms(1,2)])
qed

lemma parse_default:
  "parse_user_intent_try llm loads query = Inl e \<Longrightarrow>
   parse_user_intent llm loads query = default_intent query"
  by (simp add: parse_user_intent_def)

lemma parse_try_parsed:
  assumes "llm query = Inr (Some t)" and "strip_fence (py_strip t) = Inr t'" and "loads t' = Inr v"
  shows "parse_user_intent_try llm loads query =
           ebind (py_subscript_key v ''type'') (\<lambda>ty.
           ebind (py_subscript_key v ''filters'') (\<lambda>fs.
           ebind (py_len fs) (\<lambda>k. Inr v)))"
  using assms by (simp add: parse_user_intent_try_def)

lemma default_intent_value:
  "default_intent query = JObj [(''type'', JStr ''search''), (''filters'', JObj []), (''search_query'', JStr query)]"
  by (simp add: default_intent_def)

text \<open>
  Claim C4.  \<open>_parse_user_intent\<close> returns a value in every case: the default intent
  \<open>{type: search, filters: {}, search_query: query}\<close> with the original query, or what
  the body of its \<open>try\<close> returned.  Whenever that body raises, the value is the default
  intent.  That is so when the call to the language model raises or its content is
  \<open>None\<close>, when \<open>json.loads\<close> raises, when the parsed value has no \<open>type\<close> or no
  \<open>filters\<close> key (the two keys the body reads), and when its filters have no length.
  When both keys are there and the filters have a length, the parsed value is returned as
  it is, whatever its other keys.  The text given to \<open>json.loads\<close> is the answer with
  its fence removed: for an answer \<open>pre ```json body ``` post\<close>, and for
  \<open>pre ``` body ``` post\<close> in which \<open>```json\<close> does not occur, where \<open>pre\<close>,
  \<open>body\<close> and \<open>post\<close> hold no backquote, it is \<open>body\<close> stripped of white space.
  In the second form a tag other than \<open>json\<close> is part of \<open>body\<close> and stays in the text.
\<close>

theorem intent_parser_law:
  "(parse_user_intent llm loads query = JObj [(''type'', JStr ''search''), (''filters'', JObj []), (''search_query'', JStr query)]
      \<or> parse_user_intent_try llm loads query = Inr (parse_user_intent llm loads query))
   \<and> (parse_user_intent_try llm loads query = Inl e
      \<longrightarrow> parse_user_intent llm loads query = JObj [(''type'', JStr ''search''), (''filters'', JObj []), (''search_query'', JStr query)])
   \<and> (llm query = Inl e \<or> llm query = Inr None
      \<longrightarrow> parse_user_intent llm loads query = JObj [(''type'', JStr ''search''), (''filters'', JObj []), (''search_query'', JStr query)])
   \<and> (llm query = Inr (Some t) \<and> strip_fence (py_strip t) = Inr t' \<and> loads t' = Inl e
      \<longrightarrow> parse_user_intent llm loads query = JObj [(''type'', JStr ''search''), (''filters'', JObj []), (''search_query'', JStr query)])
   \<and> (llm query = Inr (Some t) \<and> strip_fence (py_strip t) = Inr t' \<and> loads t' = Inr v
        \<and> (py_subscript_key v ''type'' = Inl e \<or> py_subscript_key v ''filters'' = Inl e
            \<or> (py_subscript_key v ''filters'' = Inr fs \<and> py_len fs = Inl e))
      \<longrightarrow> parse_user_intent llm loads query = JObj [(''type'', JStr ''search''), (''filters'', JObj []), (''search_query'', JStr query)])
   \<and> (llm query = Inr (Some t) \<and> strip_fence (py_strip t) = Inr t' \<and> loads t' = Inr v
        \<and> py_subscript_key v ''type'' = Inr ty \<and> py_subscript_key v ''filters'' = Inr fs
        \<and> py_len fs = Inr k
      \<longrightarrow> parse_user_intent llm loads query = v)
   \<and> (CHR 0x60 \<notin> set pre \<and> CHR 0x60 \<notin> set body \<and> CHR 0x60 \<notin> set post
      \<longrightarrow> strip_fence (pre @ code_fence @ ''json'' @ body @ code_fence @ post)
            = Inr (py_strip body))
   \<and> (CHR 0x60 \<notin> set pre \<and> CHR 0x60 \<notin> set body
        \<and> \<not> str_in (code_fence @ ''json'') (pre @ code_fence @ body @ code_fence @ post)
      \<longrightarrow> strip_fence (pre @ code_fence @ body @ code_fence @ post) = Inr (py_strip body))"
  unfolding default_intent_value [symmetric]
proof (intro conjI impI)
  show "parse_user_intent llm loads query = default_intent query
      \<or> parse_user_intent_try llm loads query = Inr (parse_user_intent llm loads query)"
    by (cases "parse_user_intent_try llm loads query") (simp_all add: parse_user_intent_def)
next
  assume "parse_user_intent_try llm loads query = Inl e"
  then show "parse_user_intent llm loads query = default_intent query"
    by (rule parse_default)
next
  assume "llm query = Inl e \<or> llm query = Inr None"
  then have "parse_user_intent_try llm loads query = Inl e
           \<or> parse_user_intent_try llm loads query = Inl AttributeError"
    by (auto simp: parse_user_intent_try_def)
  then show "parse_user_intent llm loads query = default_intent query"
    by (auto intro: parse_default)
next
  assume "llm query = Inr (Some t) \<and> strip_fence (py_strip t) = Inr t' \<and> loads t' = Inl e"
  then have "parse_user_intent_try llm loads query = Inl e"
    by (simp add: parse_user_intent_try_def)
  then show "parse_user_intent llm loads query = default_intent query"
    by (rule parse_default)
next
  assume a: "llm query = Inr (Some t) \<and> strip_fence (py_strip t) = Inr t' \<and> loads t' = Inr v
        \<and> (py_subscript_key v ''type'' = Inl e \<or> py_subscript_key v ''filters'' = Inl e
            \<or> (py_subscript_key v ''filters'' = Inr fs \<and> py_len fs = Inl e))"
  then have "parse_user_intent_try llm loads query =
           ebind (py_subscript_key v ''type'') (\<lambda>ty.
           ebind (py_subscript_key v ''filters'') (\<lambda>fs.
           ebind (py_len fs) (\<lambda>k. Inr v)))"
    using parse_try_parsed [of llm query t t' loads v] by simp
  with a obtain e' where "parse_user_intent_try llm loads query = Inl e'"
    by (cases "py_subscript_key v ''type''") auto
  then show "parse_user_intent llm loads query = default_intent query"
    by (rule parse_default)
next
  assume a: "llm query = Inr (Some t) \<and> strip_fence (py_strip t) = Inr t' \<and> loads t' = Inr v
        \<and> py_subscript_key v ''type'' = Inr ty \<and> py_subscript_key v ''filters'' = Inr fs
        \<and> py_len fs = Inr k"
  then have "parse_user_intent_try llm loads query =
           ebind (py_subscript_key v ''type'') (\<lambda>ty.
           ebind (py_subscript_key v ''filters'') (\<lambda>fs.
           ebind (py_len fs) (\<lambda>k. Inr v)))"
    using parse_try_parsed [of llm query t t' loads v] by simp
  with a have "parse_user_intent_try llm loads query = Inr v" by simp
  then show "parse_user_intent llm loads query = v"
    by (simp add: parse_user_intent_def)
next
  assume "CHR 0x60 \<notin> set pre \<and> CHR 0x60 \<notin> set body \<and> CHR 0x60 \<notin> set post"
  then show "strip_fence (pre @ code_fence @ ''json'' @ body @ code_fence @ post)
            = Inr (py_strip body)"
    by (blast intro: strip_fence_json)
next
  assume "CHR 0x60 \<notin> set pre \<and> CHR 0x60 \<notin> set body
        \<and> \<not> str_in (code_fence @ ''json'') (pre @ code_fence @ body @ code_fence @ post)"
  then show "strip_fence (pre @ code_fence @ body @ code_fence @ post) = Inr (py_strip body)"
    by (blast intro: strip_fence_plain)
qed

lemma fenced_answer_shape:
  "py_strip fenced_answer
     = ''Sure: '' @ code_fence @ ''json'' @ ([CHR 0x0A] @ ''{}'' @ [CHR 0x0A]) @ code_fence @ []"
  "loads_braces (py_strip ([CHR 0x0A] @ ''{}'' @ [CHR 0x0A])) = Inr drama_intent"
  "strip_fence (py_strip ''not json'') = Inr ''not json''"
  "loads_braces ''not json'' = Inl ValueError"
  "py_subscript_key drama_intent ''type'' = Inr (JStr ''recommendation'')"
  "py_subscript_key drama_intent ''filters'' = Inr (JObj [(''genres'', JArr [JStr ''drama''])])"
  "py_len (JObj [(''genres'', JArr [JStr ''drama''])]) = Inr 1"
  "py_subscript_key (JObj [(''type'', JStr ''search'')]) ''filters'' = Inl KeyError"
  by code_simp+

text \<open>
  A fenced answer is parsed from the text inside the fence; a failing call, a text that
  is no JSON and an answer without \<open>filters\<close> key give the default intent.
\<close>

theorem intent_parser_law_witness:
  "parse_user_intent (\<lambda>q. Inr (Some fenced_answer)) loads_braces ''dramas'' = drama_intent
   \<and> parse_user_intent (\<lambda>q. Inl (BackendError ''timeout'')) loads_braces ''dramas''
       = JObj [(''type'', JStr ''search''), (''filters'', JObj []), (''search_query'', JStr ''dramas'')]
   \<and> parse_user_intent (\<lambda>q. Inr (Some ''not json'')) loads_braces ''dramas''
       = JObj [(''type'', JStr ''search''), (''filters'', JObj []), (''search_query'', JStr ''dramas'')]
   \<and> parse_user_intent (\<lambda>q. Inr (Some ''{}'')) (\<lambda>t. Inr (JObj [(''type'', JStr ''search'')]))
        ''dramas'' = JObj [(''type'', JStr ''search''), (''filters'', JObj []), (''search_query'', JStr ''dramas'')]"
proof (intro conjI)
  show "parse_user_intent (\<lambda>q. Inr (Some fenced_answer)) loads_braces ''dramas'' = drama_intent"
    using intent_parser_law [where llm = "\<lambda>q. Inr (Some fenced_answer)" and loads = loads_braces
      and query = "''dramas''" and t = fenced_answer
      and t' = "py_strip ([CHR 0x0A] @ ''{}'' @ [CHR 0x0A])" and v = drama_intent
      and ty = "JStr ''recommendation''" and fs = "JObj [(''genres'', JArr [JStr ''drama''])]"
      and k = 1 and pre = "''Sure: ''" and body = "[CHR 0x0A] @ ''{}'' @ [CHR 0x0A]"
      and post = "[]"]
      fenced_answer_shape(1,2,5,6,7)
    by (simp del: append.simps)
  show "parse_user_intent (\<lambda>q. Inl (BackendError ''timeout'')) loads_braces ''dramas''
       = JObj [(''type'', JStr ''search''), (''filters'', JObj []), (''search_query'', JStr ''dramas'')]"
    using intent_parser_law [where llm = "\<lambda>q. Inl (BackendError ''timeout'')"
      and loads = loads_braces and query = "''dramas''" and e = "BackendError ''timeout''"]
    by simp
  show "parse_user_intent (\<lambda>q. Inr (Some ''not json'')) loads_braces ''dramas''
       = JObj [(''type'', JStr ''search''), (''filters'', JObj []), (''search_query'', JStr ''dramas'')]"
    using intent_parser_law [where llm = "\<lambda>q. Inr (Some ''not json'')" and loads = loads_braces
      and query = "''dramas''" and e = ValueError and t = "''not json''" and t' = "''not json''"]
      fenced_answer_shape(3,4)
    by simp
  show "parse_user_intent (\<lambda>q. Inr (Some ''{}'')) (\<lambda>t. Inr (JObj [(''type'', JStr ''search'')]))
        ''dramas'' = JObj [(''type'', JStr ''search''), (''filters'', JObj []), (''search_query'', JStr ''dramas'')]"
    using intent_parser_law [where llm = "\<lambda>q. Inr (Some ''{}'')"
      and loads = "\<lambda>t. Inr (JObj [(''type'', JStr ''search'')])"
      and query = "''dramas''" and e = KeyError and t = "''{}''" and t' = "''{}''"
      and v = "JObj [(''type'', JStr ''search'')]"]
      strip_fence_braces fenced_answer_shape(8)
    by simp
qed

lemma tagged_answer_shape:
  "strip_fence (py_strip tagged_answer) = Inr (''JSON'' @ [CHR 0x0A] @ ''{}'')"
  "loads_braces (''JSON'' @ [CHR 0x0A] @ ''{}'') = Inl ValueError"
  "loads_braces ''{}'' = Inr drama_intent"
  by code_simp+

text \<open>
  Two answers on which the parser does not do what the sentence says.  An answer with
  \<open>type\<close> and \<open>filters\<close> and without \<open>search_query\<close> is no failure: it is returned
  as parsed, and is not the default intent.  An answer that wraps the text \<open>{}\<close>, which
  \<open>loads\<close> accepts, in a fence tagged \<open>JSON\<close> keeps the tag in the text given to
  \<open>loads\<close>, which refuses it, so the result is the default intent and not the parsed
  wrapped text.
\<close>

theorem intent_parser_counterexample:
  "parse_user_intent (\<lambda>q. Inr (Some ''{}''))
      (\<lambda>t. Inr (JObj [(''type'', JStr ''search''), (''filters'', JObj [])])) ''dramas''
     = JObj [(''type'', JStr ''search''), (''filters'', JObj [])]
   \<and> JObj [(''type'', JStr ''search''), (''filters'', JObj [])]
       \<noteq> JObj [(''type'', JStr ''search''), (''filters'', JObj []), (''search_query'', JStr ''dramas'')]
   \<and> strip_fence (py_strip tagged_answer) = Inr (''JSON'' @ [CHR 0x0A] @ ''{}'')
   \<and> loads_braces ''{}'' = Inr drama_intent
   \<and> parse_user_intent (\<lambda>q. Inr (Some tagged_answer)) loads_braces ''dramas''
       = JObj [(''type'', JStr ''search''), (''filters'', JObj []), (''search_query'', JStr ''dramas'')]
   \<and> drama_intent
       \<noteq> JObj [(''type'', JStr ''search''), (''filters'', JObj []), (''search_query'', JStr ''dramas'')]"
proof (intro conjI)
  show "parse_user_intent (\<lambda>q. Inr (Some ''{}''))
      (\<lambda>t. Inr (JObj [(''type'', JStr ''search''), (''filters'', JObj [])])) ''dramas''
     = JObj [(''type'', JStr ''search''), (''filters'', JObj [])]"
    by (simp add: parse_user_intent_def parse_user_intent_try_def strip_fence_braces)
  show "parse_user_intent (\<lambda>q. Inr (Some tagged_answer)) loads_braces ''dramas''
       = JObj [(''type'', JStr ''search''), (''filters'', JObj []), (''search_query'', JStr ''dramas'')]"
    by (simp add: parse_user_intent_def parse_user_intent_try_def tagged_answer_shape(1)
        loads_braces_def default_intent_def)
  show "drama_intent
       \<noteq> JObj [(''type'', JStr ''search''), (''filters'', JObj []), (''search_query'', JStr ''dramas'')]"
    by (simp add: drama_intent_def)
qed (simp_all add: tagged_answer_shape)

text \<open>
  Without the key \<open>search_query\<close> in the returned intent, the compiled query text is
  the empty string.
\<close>

lemma missing_search_query_text:
  "map_sum id query_text (construct_vector_query (\<lambda>v. [])
         (JObj [(''type'', JStr ''search''), (''filters'', JObj [])])) = Inr (JStr [])"
  by (simp add: construct_vector_query_def add_contains_def add_year_def)

text \<open>
  The white space of \<open>str.strip\<close>: the twelve characters are removed at both ends, and
  kept inside; the characters next to them in the code table are kept.
\<close>

lemma py_strip_white_space:
  "py_strip (map char_of [9, 10, 11, 12, 13, 28, 29, 30, 31, 32, 133, 160 :: nat] @ ''a b''
       @ map char_of [160, 133, 32, 31, 30, 29, 28, 13, 12, 11, 10, 9 :: nat]) = ''a b''"
  "py_strip (map char_of [8, 27 :: nat]) = map char_of [8, 27 :: nat]"
  "py_strip [CHR 0x0E, CHR 0x21, CHR 0x84, CHR 0x86, CHR 0xA1] = [CHR 0x0E, CHR 0x21, CHR 0x84, CHR 0x86, CHR 0xA1]"
  by code_simp+


section \<open>Genre matching\<close>

text \<open>
  \<open>str.lower\<close> on the capitals and on their neighbours in the code table, which stay.
\<close>

lemma py_lower_examples:
  "py_lower ''Sci-Fi, DRAMA'' = ''sci-fi, drama''"
  "py_lower [CHR 0x40, CHR 0x41, CHR 0x5A, CHR 0x5B] = [CHR 0x40, CHR 0x61, CHR 0x7A, CHR 0x5B]"
  "py_lower [CHR 0xBF, CHR 0xC0, CHR 0xD6, CHR 0xD7, CHR 0xD8, CHR 0xDE, CHR 0xDF, CHR 0xFF]
     = [CHR 0xBF, CHR 0xE0, CHR 0xF6, CHR 0xD7, CHR 0xF8, CHR 0xFE, CHR 0xDF, CHR 0xFF]"
  by code_simp+

lemma lower_char_bar:
  assumes "lower_char c = CHR ''|''"
  shows "c = CHR ''|''"
proof (rule ccontr)
  assume n: "c \<noteq> CHR ''|''"
  let ?k = "of_char c :: nat"
  from assms n have cap: "(65 \<le> ?k \<and> ?k \<le> 90) \<or> (192 \<le> ?k \<and> ?k \<le> 222 \<and> ?k \<noteq> 215)"
    and e: "char_of (?k + 32) = CHR ''|''"
    by (auto simp: lower_char_def Let_def split: if_splits)
  from e have "of_char (char_of (?k + 32) :: char) = (of_char (CHR ''|'') :: nat)"
    by simp
  with cap show False by auto
qed

lemma py_lower_no_bar: "CHR ''|'' \<notin> set g \<Longrightarrow> CHR ''|'' \<notin> set (py_lower g)"
proof
  assume n: "CHR ''|'' \<notin> set g" and "CHR ''|'' \<in> set (py_lower g)"
  then obtain x where x: "x \<in> set g" "lower_char x = CHR ''|''"
    by (auto simp: py_lower_def)
  from lower_char_bar [OF x(2)] x(1) n show False by simp
qed

lemma py_lower_join: "py_lower (py_join ''|'' gs) = py_join ''|'' (map py_lower gs)"
proof (induction "''|''" gs rule: py_join.induct)
  case 1
  show ?case by (simp add: py_lower_def)
next
  case (2 x)
  show ?case by simp
next
  case (3 x y ys)
  have "py_lower (x @ ''|'' @ py_join ''|'' (y # ys))
          = py_lower x @ ''|'' @ py_lower (py_join ''|'' (y # ys))"
    by (simp add: py_lower_def lower_char_def)
  with 3 show ?case by simp
qed

lemma split_join:
  "gs \<noteq> [] \<Longrightarrow> \<forall>g\<in>set gs. c \<notin> set g \<Longrightarrow> py_split [c] (py_join [c] gs) = gs"
proof (induction "[c]" gs rule: py_join.induct)
  case 1
  then show ?case by simp
next
  case (2 x)
  then show ?case by (simp add: py_split_def split_from_none)
next
  case (3 x y ys)
  then have ih: "split_from [c] [] (py_join [c] (y # ys)) = y # ys"
    by (simp add: py_split_def)
  have "split_from [c] [] (x @ [c] @ py_join [c] (y # ys))
          = split_from [c] (rev x) ([c] @ py_join [c] (y # ys))"
    using 3(3) split_from_skip [of "[c]" x "[]" "[c] @ py_join [c] (y # ys)"] by simp
  also have "\<dots> = x # split_from [c] [] (py_join [c] (y # ys))"
    using split_from_at [of "[c]" "rev x" "py_join [c] (y # ys)"] by simp
  finally show ?case by (simp add: py_split_def ih)
qed

lemma genre_match_or_join:
  assumes "\<not> str_in ''sci-fi'' (py_lower (py_join ''|'' gs))" and "gs \<noteq> []"
    and "\<forall>g\<in>set gs. CHR ''|'' \<notin> set g"
  shows "genre_match (py_lower (py_join ''|'' gs)) genres_lower
       = list_ex (\<lambda>g. str_in (py_lower (py_strip (py_lower g))) genres_lower) gs"
proof -
  have "py_split ''|'' (py_lower (py_join ''|'' gs)) = map py_lower gs"
    using assms(2,3) split_join [of "map py_lower gs" "CHR ''|''"]
    by (simp add: py_lower_join py_lower_no_bar)
  with assms(1) show ?thesis
    by (simp add: genre_match_def list_ex_iff)
qed

lemma genre_synonym_examples:
  "include_meta [(''genres'', [(''$contains'', ''sci-fi'')])]
     [(''genres'', MStr ''Action, Science Fiction'')] = Inr True"
  "include_meta [(''genres'', [(''$contains'', ''sci-fi'')])]
     [(''genres'', MStr ''Drama, Comedy'')] = Inr False"
  by code_simp+

text \<open>
  Claim C6, at an input where the code departs from it.  The intent asks for the genres
  \<open>sci-fi\<close> and \<open>drama\<close>; the compiled value is \<open>sci-fi|drama\<close>.  Since \<open>sci-fi\<close>
  occurs in it, \<open>hybrid_search\<close> tests the four science-fiction terms only, and a
  candidate with the genres \<open>Crime, Drama\<close> is excluded, although the requested genre
  \<open>drama\<close> is contained in its field: containment joined by OR over the requested list,
  with the synonyms, accepts it (\<open>spec_genre_match\<close>), and so does the code when
  \<open>drama\<close> is requested alone.
\<close>

theorem genre_or_join_broken:
  "map_sum id filters (construct_vector_query (\<lambda>v. []) scifi_drama_intent)
     = Inr (Some [(''genres'', [(''$contains'', ''sci-fi|drama'')])])
   \<and> include_meta [(''genres'', [(''$contains'', ''sci-fi|drama'')])] godfather_meta = Inr False
   \<and> include_meta [(''genres'', [(''$contains'', ''drama'')])] godfather_meta = Inr True
   \<and> spec_genre_match [''sci-fi'', ''drama''] ''Crime, Drama''"
  by code_simp


section \<open>Which compiled predicates \<open>hybrid_search\<close> evaluates\<close>

lemma include_meta_reads_genres_year:
  assumes "map_of mf' ''genres'' = map_of mf ''genres''" and "map_of mf' ''year'' = map_of mf ''year''"
  shows "include_meta mf' m = include_meta mf m"
proof -
  have f: "filter_on mf' ''genres'' = filter_on mf ''genres''" "filter_on mf' ''year'' = filter_on mf ''year''"
    "filter_op mf' ''genres'' opr d = filter_op mf ''genres'' opr d"
    "filter_op mf' ''year'' opr d = filter_op mf ''year'' opr d" for opr d
    using assms by (simp_all add: filter_on_def filter_op_def)
  have b: "bound_step mf' opr P i = bound_step mf opr P i" for opr P i
    by (simp add: bound_step_def f)
  have g: "genre_check mf' m i = genre_check mf m i" for i
    by (simp add: genre_check_def f)
  have y: "year_check mf' m i = year_check mf m i" for i
    unfolding year_check_def f b by (rule refl)
  show ?thesis by (simp add: include_meta_def g y)
qed

lemma filtered_from_bounds:
  "filtered_from mf i ms = Inr idxs \<Longrightarrow> j \<in> set idxs \<Longrightarrow> i \<le> j \<and> j < i + length ms"
proof (induction ms arbitrary: i idxs)
  case Nil
  then show ?case by simp
next
  case (Cons m ms)
  from Cons.prems(1) obtain b rest where b: "include_meta mf m = Inr b"
    and r: "filtered_from mf (Suc i) ms = Inr rest" and i: "idxs = (if b then i # rest else rest)"
    by (auto simp: ebind_def split: sum.splits)
  from Cons.prems(2) i have "j = i \<or> j \<in> set rest" by (auto split: if_splits)
  then show ?case
  proof
    assume "j = i" then show ?thesis by simp
  next
    assume "j \<in> set rest"
    from Cons.IH [OF r this] show ?thesis by simp
  qed
qed

lemma filtered_from_filter:
  "filtered_from mf i ms = Inr idxs \<Longrightarrow>
   map (\<lambda>j. ms ! (j - i)) idxs = filter (\<lambda>m. include_meta mf m = Inr True) ms"
proof (induction ms arbitrary: i idxs)
  case Nil
  then show ?case by simp
next
  case (Cons m ms)
  from Cons.prems(1) obtain b rest where b: "include_meta mf m = Inr b"
    and r: "filtered_from mf (Suc i) ms = Inr rest" and i: "idxs = (if b then i # rest else rest)"
    by (auto simp: ebind_def split: sum.splits)
  have "map (\<lambda>j. (m # ms) ! (j - i)) rest = map (\<lambda>j. ms ! (j - Suc i)) rest"
  proof (rule map_cong [OF refl])
    fix j assume "j \<in> set rest"
    from filtered_from_bounds [OF r this] have "Suc i \<le> j" by simp
    then obtain d where "j - i = Suc d" "j - Suc i = d" by (cases "j - i") auto
    then show "(m # ms) ! (j - i) = ms ! (j - Suc i)" by simp
  qed
  also have "\<dots> = filter (\<lambda>m. include_meta mf m = Inr True) ms"
    by (rule Cons.IH [OF r])
  finally show ?case using b i by simp
qed

lemma each_index:
  "each (\<lambda>i. ebind (py_index field 0) (\<lambda>row. py_index row i)) idxs = Inr xs \<Longrightarrow>
   py_index field 0 = Inr row \<Longrightarrow> xs = map (\<lambda>i. row ! i) idxs"
proof (induction idxs arbitrary: xs)
  case Nil
  then show ?case by simp
next
  case (Cons i idxs)
  from Cons.prems obtain y ys where y: "py_index row i = Inr y"
    and ys: "each (\<lambda>i. ebind (py_index field 0) (\<lambda>row. py_index row i)) idxs = Inr ys"
    and xs: "xs = y # ys"
    by (auto simp: ebind_def split: sum.splits)
  from y have "y = row ! i" by (auto simp: py_index_def split: if_splits)
  with Cons.IH [OF ys Cons.prems(2)] xs show ?case by simp
qed

lemma gather_rows:
  "gather field idxs = Inr xs \<Longrightarrow> py_index field 0 = Inr row \<Longrightarrow> xs = map (\<lambda>i. row ! i) idxs"
  unfolding gather_def by (rule each_index)

text \<open>The metadata row of a filtered answer: the first \<open>n\<close> candidates that pass the checks.\<close>

lemma apply_filters_metadatas:
  assumes "apply_filters mf n results = Inr r" and "py_index (metadatas results) 0 = Inr metas"
    and "0 \<le> n"
  shows "first_row (metadatas r) = take (nat n) (filter (\<lambda>m. include_meta mf m = Inr True) metas)"
proof -
  from assms(1,2) obtain idxs where idxs: "filtered_from mf 0 metas = Inr idxs"
    by (auto simp: apply_filters_def ebind_def split: sum.splits)
  have f: "map (\<lambda>j. metas ! j) idxs = filter (\<lambda>m. include_meta mf m = Inr True) metas"
    using filtered_from_filter [OF idxs] by simp
  show ?thesis
  proof (cases "idxs = []")
    case True
    with assms(1,2) idxs have "r = nested_empty" by (simp add: apply_filters_def)
    with f True show ?thesis by (simp add: nested_empty_def first_row_def)
  next
    case False
    with assms(1,2) idxs obtain fm where fm: "gather (metadatas results) idxs = Inr fm"
      and r: "metadatas r = [py_take n fm]"
      by (auto simp: apply_filters_def ebind_def split: sum.splits)
    from gather_rows [OF fm assms(2)] f have "fm = filter (\<lambda>m. include_meta mf m = Inr True) metas"
      by simp
    with r assms(3) show ?thesis by (simp add: first_row_def py_take_nonneg)
  qed
qed

lemma hybrid_search_survivors:
  assumes "on_count coll = Inr c" and "ebind (on_get coll 1) log_sample = Inr u"
    and "on_query coll q (n * 3) None = Inr results"
    and "py_index (ids results) 0 = Inr ids0" and "ids0 \<noteq> []"
    and "py_index (metadatas results) 0 = Inr metas" and "mf \<noteq> []" and "0 \<le> n"
  shows "first_row (metadatas (fst (hybrid_search coll q (Some mf) n))) = []
       \<or> first_row (metadatas (fst (hybrid_search coll q (Some mf) n)))
           = take (nat n) (filter (\<lambda>m. include_meta mf m = Inr True) metas)"
proof (cases "apply_filters mf n results")
  case (Inl e)
  with assms have "fst (hybrid_search coll q (Some mf) n) = nested_empty"
    by (simp add: hybrid_search_def after_query_def)
  then show ?thesis by (simp add: nested_empty_def first_row_def)
next
  case (Inr r)
  with assms have "fst (hybrid_search coll q (Some mf) n) = r"
    by (simp add: hybrid_search_def after_query_def)
  with apply_filters_metadatas [OF Inr assms(6,8)] show ?thesis by simp
qed

lemma hybrid_search_survivors_checked:
  assumes "on_count coll = Inr c" and "ebind (on_get coll 1) log_sample = Inr u"
    and "on_query coll q (n * 3) None = Inr results"
    and "py_index (ids results) 0 = Inr ids0" and "ids0 \<noteq> []"
    and "py_index (metadatas results) 0 = Inr metas" and "mf \<noteq> []" and "0 \<le> n"
  shows "list_all (\<lambda>m. include_meta mf m = Inr True)
           (first_row (metadatas (fst (hybrid_search coll q (Some mf) n))))
       \<and> length (first_row (metadatas (fst (hybrid_search coll q (Some mf) n)))) \<le> nat n
       \<and> subseq (first_row (metadatas (fst (hybrid_search coll q (Some mf) n)))) metas"
  using hybrid_search_survivors [OF assms]
  by (auto simp: list_all_iff subseq_take_filter dest!: in_set_takeD)

text \<open>
  The four rows of a filtered answer are taken at the same positions: of Jaws and
  Inception, the genre filter \<open>sci-fi\<close> keeps the identifier, the document, the
  metadata and the distance of Inception.
\<close>

lemma hybrid_search_rows_example:
  "fst (hybrid_search film_store (JStr ''x'') (Some [(''genres'', [(''$contains'', ''sci-fi'')])]) 5)
     = \<lparr>ids = [[''tt2'']], documents = [[''Inception (2010)'']],
        metadatas = [[inception_meta]], distances = [[2]]\<rparr>"
  by code_simp

text \<open>
  Claim C1, at an input where the code departs from it.  The intent names a director and
  an actor; both are compiled, to the predicates \<open>directors\<close> and \<open>cast\<close>.  With one
  result requested, \<open>hybrid_search\<close> returns the nearest candidate, whose director
  and cast fields contain neither name: the loop reads the \<open>genres\<close> and \<open>year\<close>
  entries of the filter set and no other (\<open>include_meta_reads_genres_year\<close>).
\<close>

theorem director_filter_ignored:
  "map_sum id filters (construct_vector_query (\<lambda>v. []) nolan_intent)
     = Inr (Some [(''directors'', [(''$contains'', ''Christopher Nolan'')]),
                  (''cast'', [(''$contains'', ''Leonardo DiCaprio'')])])
   \<and> fst (hybrid_search film_store (JStr ''heist'')
          (Some [(''directors'', [(''$contains'', ''Christopher Nolan'')]),
                 (''cast'', [(''$contains'', ''Leonardo DiCaprio'')])]) 1)
     = \<lparr>ids = [[''tt1'']], documents = [[''Jaws (1975)'']], metadatas = [[jaws_meta]],
        distances = [[1]]\<rparr>
   \<and> map_of jaws_meta ''directors'' = Some (MStr ''Steven Spielberg'')
   \<and> \<not> spec_contains [''Christopher Nolan''] ''Steven Spielberg''
   \<and> map_of jaws_meta ''cast'' = Some (MStr ''Roy Scheider, Robert Shaw'')
   \<and> \<not> spec_contains [''Leonardo DiCaprio''] ''Roy Scheider, Robert Shaw''"
  by code_simp

end
